theory Spec2Isabelle
  imports Main "HOL-Library.Word"
begin

section \<open>Python values, exceptions and the environment of the adapter\<close>

text \<open>
  The development embeds \<^verbatim>\<open>llama_index/llms/llama_cpp.py\<close>: the class \<^verbatim>\<open>LlamaCPP\<close>
  with its constructor, the download routine \<^verbatim>\<open>_download_url\<close> and the operations
  \<^verbatim>\<open>complete\<close>, \<^verbatim>\<open>stream_complete\<close> and \<^verbatim>\<open>chat\<close>.

  A value of a \<^verbatim>\<open>Dict[str, Any]\<close> is a \<open>pyval\<close>; a float is carried as its 64 bits and is
  never computed with. A dictionary is a map from keys to values.
\<close>

datatype pyval = PyNone | PyBool bool | PyInt int | PyFloat "64 word" | PyStr string

type_synonym kwargs = "string \<rightharpoonup> pyval"

text \<open>
  Exceptions are values. \<open>KeyboardInterrupt\<close> is the one modelled exception that derives from
  \<^verbatim>\<open>BaseException\<close> only, so that \<^verbatim>\<open>except Exception\<close> does not catch it.
  \<open>RequestException\<close> stands for the network errors of \<^verbatim>\<open>requests\<close>, \<open>EngineError\<close> for
  whatever the inference engine or an injected callable raises.
\<close>

datatype error =
    ImportError string
  | ValueError "pyval list"
  | TypeError string
  | IndexError string
  | OverflowError string
  | AssertionError
  | FileNotFoundError string
  | FileExistsError string
  | IsADirectoryError string
  | NotADirectoryError string
  | RequestException string
  | EngineError string
  | KeyboardInterrupt

fun is_Exception :: "error \<Rightarrow> bool" where
  "is_Exception KeyboardInterrupt = False"
| "is_Exception _ = True"

subsection \<open>The world: file system, network log, console, dictionary objects\<close>

type_synonym byte = "8 word"

datatype node = File "byte list" | Dir

text \<open>
  What \<^verbatim>\<open>print\<close> receives: a string, an exception object, or the number
  \<^verbatim>\<open>round(total_size / 1000 / 1000, 2)\<close>, recorded by the integer it is computed from.
\<close>

datatype console_arg = Str string | Exc error | RoundedMB int

text \<open>
  The mutable world of the constructor: the nodes of the file system by path, the URLs that
  \<^verbatim>\<open>requests.get\<close> was called with (in order), the printed lines, and the store of
  dictionary objects (an address holds a dictionary; \<open>next_ref\<close> is the next unused address),
  which decides whether a dictionary of the caller is the one the constructor updates.
\<close>

record world =
  nodes :: "string \<rightharpoonup> node"
  net_log :: "string list"
  console :: "console_arg list list"
  dicts :: "nat \<Rightarrow> kwargs"
  next_ref :: nat

text \<open>
  A streamed HTTP response: its headers (looked up as \<^verbatim>\<open>r.headers.get\<close> does), the chunks
  that \<^verbatim>\<open>r.iter_content\<close> yields, and the exception, if any, that the iterator raises after
  them (a network error or an interruption in the middle of the transfer).
\<close>

record http_response =
  headers :: "string \<rightharpoonup> string"
  body :: "byte list list"
  body_error :: "error option"

definition print :: "console_arg list \<Rightarrow> world \<Rightarrow> world" where
  "print args w = w\<lparr>console := console w @ [args]\<rparr>"

subsection \<open>\<^verbatim>\<open>os.path\<close> (POSIX) and the file operations\<close>

definition sep :: char where
  "sep = CHR ''/''"

definition os_path_basename :: "string \<Rightarrow> string" where
  "os_path_basename p = rev (takeWhile (\<lambda>c. c \<noteq> sep) (rev p))"

definition os_path_dirname :: "string \<Rightarrow> string" where
  "os_path_dirname p =
     (let head = rev (dropWhile (\<lambda>c. c \<noteq> sep) (rev p))
      in if head \<noteq> [] \<and> head \<noteq> replicate (length head) sep
         then rev (dropWhile (\<lambda>c. c = sep) (rev head)) else head)"

definition join_step :: "string \<Rightarrow> string \<Rightarrow> string" where
  "join_step path b =
     (if take 1 b = [sep] then b
      else if path = [] \<or> last path = sep then path @ b
      else path @ [sep] @ b)"

definition os_path_join :: "string \<Rightarrow> string list \<Rightarrow> string" where
  "os_path_join a ps = foldl join_step a ps"

definition os_path_exists :: "string \<Rightarrow> world \<Rightarrow> bool" where
  "os_path_exists p w \<longleftrightarrow> nodes w p \<noteq> None"

text \<open>
  The directories above a path \<open>d\<close>: every non-empty prefix of \<open>d\<close> that a separator
  follows. A path with a regular file among them cannot be reached (\<^verbatim>\<open>ENOTDIR\<close>).
\<close>

definition ancestors :: "string \<Rightarrow> string list" where
  "ancestors d = filter (\<lambda>q. q \<noteq> []) (map (\<lambda>i. take i d) (filter (\<lambda>i. d ! i = sep) [0..<length d]))"

definition is_file :: "world \<Rightarrow> string \<Rightarrow> bool" where
  "is_file w q = (case nodes w q of Some (File b) \<Rightarrow> True | _ \<Rightarrow> False)"

text \<open>
  \<^verbatim>\<open>os.remove\<close>: deletes a regular file; raises \<^verbatim>\<open>IsADirectoryError\<close> on a directory,
  and on a missing path \<^verbatim>\<open>NotADirectoryError\<close> when a regular file stands above it,
  \<^verbatim>\<open>FileNotFoundError\<close> otherwise.
\<close>

definition os_remove :: "string \<Rightarrow> world \<Rightarrow> (error + unit) \<times> world" where
  "os_remove p w =
     (case nodes w p of
        None \<Rightarrow>
          if list_ex (is_file w) (ancestors p) then (Inl (NotADirectoryError p), w)
          else (Inl (FileNotFoundError p), w)
      | Some Dir \<Rightarrow> (Inl (IsADirectoryError p), w)
      | Some (File b) \<Rightarrow> (Inr (), w\<lparr>nodes := (nodes w)(p := None)\<rparr>))"

text \<open>
  \<^verbatim>\<open>open(p, "wb")\<close>: the directory of \<open>p\<close> must exist (the empty directory name is the
  current directory); the file is created, or truncated when it exists. Without the
  directory the call raises \<^verbatim>\<open>NotADirectoryError\<close> when a regular file stands above \<open>p\<close>,
  \<^verbatim>\<open>FileNotFoundError\<close> otherwise.
\<close>

definition open_wb :: "string \<Rightarrow> world \<Rightarrow> (error + unit) \<times> world" where
  "open_wb p w =
     (if nodes w p = Some Dir then (Inl (IsADirectoryError p), w)
      else if os_path_dirname p = [] \<or> nodes w (os_path_dirname p) = Some Dir
      then (Inr (), w\<lparr>nodes := (nodes w)(p \<mapsto> File [])\<rparr>)
      else if nodes w (os_path_dirname p) = None \<and> \<not> list_ex (is_file w) (ancestors p)
      then (Inl (FileNotFoundError p), w)
      else (Inl (NotADirectoryError p), w))"

text \<open>\<^verbatim>\<open>file.write(chunk)\<close> on the file opened at \<open>p\<close>: the chunk is appended.\<close>

definition file_write :: "string \<Rightarrow> byte list \<Rightarrow> world \<Rightarrow> world" where
  "file_write p c w =
     w\<lparr>nodes := (nodes w)(p \<mapsto> File ((case nodes w p of Some (File b) \<Rightarrow> b | _ \<Rightarrow> []) @ c))\<rparr>"

text \<open>
  \<^verbatim>\<open>os.makedirs(d, exist_ok=True)\<close> makes \<open>d\<close> and the directories above it; a regular
  file above \<open>d\<close> or at \<open>d\<close> makes it raise.
\<close>

definition os_makedirs :: "string \<Rightarrow> world \<Rightarrow> (error + unit) \<times> world" where
  "os_makedirs d w =
     (if d = [] then (Inl (FileNotFoundError d), w)
      else if list_ex (is_file w) (ancestors d) then (Inl (NotADirectoryError d), w)
      else if is_file w d then (Inl (FileExistsError d), w)
      else (Inr (), w\<lparr>nodes := (\<lambda>q. if q \<in> set (ancestors d @ [d]) then Some Dir else nodes w q)\<rparr>))"

subsection \<open>\<^verbatim>\<open>int(str)\<close> and true division\<close>

text \<open>
  \<^verbatim>\<open>int(s)\<close> in base 10. A character of a string is one byte, read as the code point of
  that number (the headers of a response are decoded so). The white space that \<^verbatim>\<open>int\<close>
  skips at both ends is then the characters 9 to 13, 32, 133 and 160; the characters 28 to
  31 are not skipped. One sign is allowed, then decimal digits with single underscores
  between digits. The scan of the digits comes first, then the limit on their number (4300,
  the default of \<^verbatim>\<open>sys.get_int_max_str_digits()\<close>), then the check that nothing follows.
\<close>

definition is_py_space :: "char \<Rightarrow> bool" where
  "is_py_space c \<longleftrightarrow>
     (let n = (of_char c :: nat) in (9 \<le> n \<and> n \<le> 13) \<or> n = 32 \<or> n = 133 \<or> n = 160)"

definition is_py_digit :: "char \<Rightarrow> bool" where
  "is_py_digit c \<longleftrightarrow> (let n = (of_char c :: nat) in 48 \<le> n \<and> n \<le> 57)"

definition py_strip :: "string \<Rightarrow> string" where
  "py_strip s = rev (dropWhile is_py_space (rev (dropWhile is_py_space s)))"

fun valid_digits :: "string \<Rightarrow> bool" where
  "valid_digits [] = False"
| "valid_digits [c] = is_py_digit c"
| "valid_digits (c # d # cs) =
     (is_py_digit c \<and> (if d = CHR ''_'' then valid_digits cs else valid_digits (d # cs)))"

definition digits_value :: "string \<Rightarrow> int" where
  "digits_value s =
     foldl (\<lambda>a c. 10 * a + (int (of_char c) - 48)) 0 (filter (\<lambda>c. c \<noteq> CHR ''_'') s)"

definition int_max_str_digits :: nat where
  "int_max_str_digits = 4300"

definition py_int :: "string \<Rightarrow> error + int" where
  "py_int s =
     (let t = py_strip s;
          neg = (take 1 t = ''-'');
          u = (if take 1 t = ''-'' \<or> take 1 t = ''+'' then drop 1 t else t);
          run = takeWhile (\<lambda>c. is_py_digit c \<or> c = CHR ''_'') u;
          rest = dropWhile (\<lambda>c. is_py_digit c \<or> c = CHR ''_'') u;
          invalid = Inl (ValueError [PyStr ''invalid literal for int() with base 10'', PyStr s])
      in if run \<noteq> [] \<and> \<not> valid_digits run then invalid
         else if int_max_str_digits < length (filter is_py_digit run)
         then Inl (ValueError [PyStr ''Exceeds the limit (4300 digits) for integer string conversion''])
         else if run = [] \<or> rest \<noteq> [] then invalid
         else Inr (if neg then - digits_value run else digits_value run))"

text \<open>\<^verbatim>\<open>str(n)\<close> of a natural number: its decimal numeral.\<close>

definition digit_char :: "nat \<Rightarrow> char" where
  "digit_char d = ''0123456789'' ! d"

function decimal :: "nat \<Rightarrow> string" where
  "decimal n = (if n < 10 then [digit_char n] else decimal (n div 10) @ [digit_char (n mod 10)])"
  by pat_completeness auto
termination
  by (relation "measure (\<lambda>n. n)") simp_all

declare decimal.simps [simp del]

text \<open>
  \<^verbatim>\<open>n / d\<close> on integers is a float: it raises \<^verbatim>\<open>OverflowError\<close> when the quotient,
  rounded to a double, is out of range, that is, when it reaches \<open>2^1024 - 2^970\<close>.
\<close>

definition true_div_overflows :: "int \<Rightarrow> int \<Rightarrow> bool" where
  "true_div_overflows n d \<longleftrightarrow> \<bar>d\<bar> * (2 ^ 1024 - 2 ^ 970) \<le> \<bar>n\<bar>"

section \<open>The download routine\<close>

text \<open>
  The part of the environment that the download reads: what \<^verbatim>\<open>requests.get(url, stream=True)\<close>
  does for a URL, an exception or a response.
\<close>

type_synonym requests = "string \<Rightarrow> error + http_response"

text \<open>\<^verbatim>\<open>int(r.headers.get("Content-Length") or "0")\<close>\<close>

definition content_length :: "http_response \<Rightarrow> error + int" where
  "content_length r =
     py_int (case headers r ''Content-Length'' of
               None \<Rightarrow> ''0''
             | Some s \<Rightarrow> if s = [] then ''0'' else s)"

definition header_arg :: "http_response \<Rightarrow> pyval" where
  "header_arg r = (case headers r ''Content-Length'' of None \<Rightarrow> PyNone | Some s \<Rightarrow> PyStr s)"

fun write_chunks :: "string \<Rightarrow> byte list list \<Rightarrow> world \<Rightarrow> world" where
  "write_chunks p [] w = w"
| "write_chunks p (c # cs) w = write_chunks p cs (file_write p c w)"

text \<open>
  Lines 150 to 156, the validation of the size: the integer \<^verbatim>\<open>total_size\<close> when the check
  passes, the exception raised otherwise.
\<close>

definition size_check :: "http_response \<Rightarrow> error + int" where
  "size_check r =
     (case content_length r of
        Inl e \<Rightarrow> Inl e
      | Inr total_size \<Rightarrow>
          if total_size < 1000 * 1000
          then Inl (ValueError [PyStr ''Content should be at least 1 MB, but is only'',
                                header_arg r, PyStr ''bytes''])
          else Inr total_size)"

text \<open>
  The body of the inner \<^verbatim>\<open>with open(...)\<close> block, lines 150 to 163: the exception that leaves
  the block, or \<open>None\<close>, and the world at that moment. The two divisions are those of
  \<^verbatim>\<open>round(total_size / 1000 / 1000, 2)\<close> and of \<^verbatim>\<open>int(total_size / chunk_size)\<close>.
\<close>

definition write_body :: "http_response \<Rightarrow> string \<Rightarrow> world \<Rightarrow> error option \<times> world" where
  "write_body r model_path w =
     (case size_check r of
        Inl e \<Rightarrow> (Some e, w)
      | Inr total_size \<Rightarrow>
          if true_div_overflows total_size 1000
          then (Some (OverflowError ''integer division result too large for a float''), w)
          else let w1 = print [Str ''total size (MB):'', RoundedMB total_size] w
               in if true_div_overflows total_size (1024 * 1024)
                  then (Some (OverflowError ''integer division result too large for a float''), w1)
                  else (body_error r, write_chunks model_path (body r) w1))"

text \<open>
  The \<^verbatim>\<open>try\<close> block, lines 147 to 164: \<open>None\<close> when \<^verbatim>\<open>completed = True\<close> was reached,
  the exception that left the block otherwise.
\<close>

definition download_try :: "requests \<Rightarrow> string \<Rightarrow> string \<Rightarrow> world \<Rightarrow> error option \<times> world" where
  "download_try requests_get model_url model_path w =
     (let w1 = print [Str ''Downloading url'', Str model_url, Str ''to path'', Str model_path] w;
          w2 = w1\<lparr>net_log := net_log w1 @ [model_url]\<rparr>
      in case requests_get model_url of
           Inl e \<Rightarrow> (Some e, w2)
         | Inr r \<Rightarrow>
             (case open_wb model_path w2 of
                (Inl e, w3) \<Rightarrow> (Some e, w3)
              | (Inr u, w3) \<Rightarrow> write_body r model_path w3))"

text \<open>
  \<^verbatim>\<open>_download_url\<close>: the \<^verbatim>\<open>except Exception\<close> clause prints and swallows the exception;
  the \<^verbatim>\<open>finally\<close> clause, when the download has not completed, removes the file and raises
  \<^verbatim>\<open>ValueError("Download incomplete.")\<close>, which replaces an exception still in flight. An
  exception of \<^verbatim>\<open>os.remove\<close> leaves the \<^verbatim>\<open>finally\<close> clause before that \<^verbatim>\<open>raise\<close>.
\<close>

definition download_url :: "requests \<Rightarrow> string \<Rightarrow> string \<Rightarrow> world \<Rightarrow> (error + unit) \<times> world" where
  "download_url requests_get model_url model_path w =
     (case download_try requests_get model_url model_path w of
        (None, w1) \<Rightarrow> (Inr (), w1)
      | (Some e, w1) \<Rightarrow>
          (let w2 = (if is_Exception e then print [Str ''Error downloading model:'', Exc e] w1 else w1);
               w3 = print [Str ''Download incomplete.'', Str ''Removing partially downloaded file.''] w2
           in case os_remove model_path w3 of
                (Inl e', w4) \<Rightarrow> (Inl e', w4)
              | (Inr u, w4) \<Rightarrow> (Inl (ValueError [PyStr ''Download incomplete.'']), w4)))"

section \<open>The adapter\<close>

subsection \<open>The inference engine and the response types\<close>

text \<open>
  The engine answers with dictionaries: a response or a streamed chunk has a list of choices
  under \<^verbatim>\<open>"choices"\<close>, a choice has a string under \<^verbatim>\<open>"text"\<close>. The adapter reads nothing
  else of them.
\<close>

record choice =
  "text" :: string

record response =
  choices :: "choice list"

text \<open>
  What a call of the engine object returns: one response, or an iterator, given by the chunks
  it yields and the exception, if any, that it raises after them.
\<close>

datatype engine_output = Completion response | ChunkStream "response list" "error option"

text \<open>
  A call \<^verbatim>\<open>self._model(prompt=prompt, **kw)\<close>. The engine and the injected callables are
  arbitrary code: they read and change an external state of type \<open>'e\<close>, and they may raise.
\<close>

type_synonym 'e engine = "string \<Rightarrow> kwargs \<Rightarrow> 'e \<Rightarrow> (error + engine_output) \<times> 'e"

type_synonym ('a, 'e) callable = "'a \<Rightarrow> 'e \<Rightarrow> (error + string) \<times> 'e"

record ChatMessage =
  role :: string
  content :: string

record CompletionResponse =
  "text" :: string
  delta :: "string option"
  raw :: response

record ChatResponse =
  message :: ChatMessage
  raw :: response

record 'e LlamaCPP =
  model_url :: string
  model_path :: string
  temperature :: "64 word"
  max_new_tokens :: int
  context_window :: int
  messages_to_prompt :: "(ChatMessage list, 'e) callable"
  completion_to_prompt :: "(string, 'e) callable"
  generate_kwargs :: kwargs
  model_kwargs :: kwargs
  verbose :: bool
  model :: "'e engine"

subsection \<open>Construction\<close>

text \<open>
  What the constructor finds around it: the class \<^verbatim>\<open>Llama\<close> when \<^verbatim>\<open>llama_cpp\<close> can be
  imported (it builds an engine from a path, the initialization options and the file system,
  or raises), the string that \<^verbatim>\<open>get_cache_dir()\<close> returns, \<^verbatim>\<open>requests.get\<close>, and the
  default formatter \<^verbatim>\<open>generic_messages_to_prompt\<close>.
\<close>

record 'e env =
  llama_cpp :: "(string \<Rightarrow> kwargs \<Rightarrow> (string \<rightharpoonup> node) \<Rightarrow> error + 'e engine) option"
  get_cache_dir :: string
  requests_get :: requests
  generic_messages_to_prompt :: "(ChatMessage list, 'e) callable"

text \<open>
  The arguments of \<^verbatim>\<open>__init__\<close>, defaults already filled in by the call. A dictionary argument
  is the address of the caller's dictionary object, or \<open>None\<close>.
\<close>

record 'e init_args =
  arg_model_url :: string
  arg_model_path :: "string option"
  arg_temperature :: "64 word"
  arg_max_new_tokens :: int
  arg_context_window :: int
  arg_messages_to_prompt :: "(ChatMessage list, 'e) callable option"
  arg_completion_to_prompt :: "(string, 'e) callable option"
  arg_generate_kwargs :: "nat option"
  arg_model_kwargs :: "nat option"
  arg_verbose :: bool

text \<open>\<^verbatim>\<open>d or {}\<close>: \<open>None\<close> and the empty dictionary are false, and a new dictionary is made.\<close>

definition or_new_dict :: "nat option \<Rightarrow> world \<Rightarrow> nat \<times> world" where
  "or_new_dict arg w =
     (let fresh = (next_ref w,
                   w\<lparr>dicts := (dicts w)(next_ref w := Map.empty), next_ref := Suc (next_ref w)\<rparr>)
      in case arg of
           None \<Rightarrow> fresh
         | Some r \<Rightarrow> if dicts w r = Map.empty then fresh else (r, w))"

text \<open>\<^verbatim>\<open>d.update(u)\<close> on the dictionary object at address \<open>r\<close>.\<close>

definition dict_update :: "nat \<Rightarrow> kwargs \<Rightarrow> world \<Rightarrow> world" where
  "dict_update r u w = w\<lparr>dicts := (dicts w)(r := dicts w r ++ u)\<rparr>"

text \<open>
  A call \<^verbatim>\<open>f(name=value, **kw)\<close> raises \<^verbatim>\<open>TypeError\<close> before \<open>f\<close> runs when \<open>kw\<close> has
  the key \<open>name\<close> as well.
\<close>

definition keyword_clash :: "string \<Rightarrow> kwargs \<Rightarrow> error option" where
  "keyword_clash name kw =
     (if kw name = None then None
      else Some (TypeError (''got multiple values for keyword argument '' @ name)))"

text \<open>\<^verbatim>\<open>Llama(model_path=model_path, **model_kwargs)\<close>\<close>

definition new_Llama ::
  "(string \<Rightarrow> kwargs \<Rightarrow> (string \<rightharpoonup> node) \<Rightarrow> error + 'e engine) \<Rightarrow> string \<Rightarrow> kwargs \<Rightarrow>
     (string \<rightharpoonup> node) \<Rightarrow> error + 'e engine" where
  "new_Llama Llama p kw fs =
     (case keyword_clash ''model_path'' kw of Some e \<Rightarrow> Inl e | None \<Rightarrow> Llama p kw fs)"

text \<open>The two exceptions that the constructor raises itself, lines 82 and 95.\<close>

definition import_failed :: error where
  "import_failed =
     ImportError (''Could not import llama_cpp library.'' @
       ''Please install llama_cpp with `pip install llama-cpp-python`.'' @
       ''See the full installation guide for GPU support at '' @
       ''`https://github.com/abetlen/llama-cpp-python`'')"

definition model_path_missing :: error where
  "model_path_missing =
     ValueError [PyStr (''Provided model path does not exist. '' @
       ''Please check the path or provide a model_url to download.'')]"

text \<open>Lines 102 to 104: the path of the artifact in the cache.\<close>

definition cache_path :: "'e env \<Rightarrow> string \<Rightarrow> string" where
  "cache_path env url = os_path_join (get_cache_dir env) [''models'', os_path_basename url]"

text \<open>
  Lines 93 to 110: the path of the model and the engine built from it. \<open>Llama\<close> is the
  imported class, \<open>mk\<close> the address of the initialization options.
\<close>

definition load_model ::
  "'e env \<Rightarrow> (string \<Rightarrow> kwargs \<Rightarrow> (string \<rightharpoonup> node) \<Rightarrow> error + 'e engine) \<Rightarrow> 'e init_args \<Rightarrow> nat \<Rightarrow>
     world \<Rightarrow> (error + string \<times> 'e engine) \<times> world" where
  "load_model env Llama a mk w =
     (case arg_model_path a of
        Some p \<Rightarrow>
          if \<not> os_path_exists p w
          then (Inl model_path_missing, w)
          else (case new_Llama Llama p (dicts w mk) (nodes w) of
                  Inl e \<Rightarrow> (Inl e, w)
                | Inr m \<Rightarrow> (Inr (p, m), w))
      | None \<Rightarrow>
          (let p = cache_path env (arg_model_url a)
           in case (if \<not> os_path_exists p w
                    then (case os_makedirs (os_path_dirname p) w of
                            (Inl e, w1) \<Rightarrow> (Inl e, w1)
                          | (Inr u, w1) \<Rightarrow>
                              (case download_url (requests_get env) (arg_model_url a) p w1 of
                                 (Inl e, w2) \<Rightarrow> (Inl e, w2)
                               | (Inr u, w2) \<Rightarrow>
                                   if os_path_exists p w2 then (Inr (), w2)
                                   else (Inl AssertionError, w2)))
                    else (Inr (), w)) of
                (Inl e, w3) \<Rightarrow> (Inl e, w3)
              | (Inr u, w3) \<Rightarrow>
                  (case new_Llama Llama p (dicts w3 mk) (nodes w3) of
                     Inl e \<Rightarrow> (Inl e, w3)
                   | Inr m \<Rightarrow> (Inr (p, m), w3))))"

text \<open>
  \<^verbatim>\<open>__init__\<close>. The fields of the object hold the dictionaries by value: the validation of
  the base class copies a mapping field. \<^verbatim>\<open>callback_manager\<close> is handed to the base class
  and plays no part here.
\<close>

definition init :: "'e env \<Rightarrow> 'e init_args \<Rightarrow> world \<Rightarrow> (error + 'e LlamaCPP) \<times> world" where
  "init env a w =
     (case llama_cpp env of
        None \<Rightarrow> (Inl import_failed, w)
      | Some Llama \<Rightarrow>
          (let (mk, w1) = or_new_dict (arg_model_kwargs a) w;
               w2 = dict_update mk [''n_ctx'' \<mapsto> PyInt (arg_context_window a),
                                    ''verbose'' \<mapsto> PyBool (arg_verbose a)] w1
           in case load_model env Llama a mk w2 of
                (Inl e, w3) \<Rightarrow> (Inl e, w3)
              | (Inr (p, m), w3) \<Rightarrow>
                  (let m2p = (case arg_messages_to_prompt a of
                                None \<Rightarrow> generic_messages_to_prompt env | Some f \<Rightarrow> f);
                       c2p = (case arg_completion_to_prompt a of
                                None \<Rightarrow> (\<lambda>x s. (Inr x, s)) | Some f \<Rightarrow> f);
                       (gk, w4) = or_new_dict (arg_generate_kwargs a) w3;
                       w5 = dict_update gk [''temperature'' \<mapsto> PyFloat (arg_temperature a),
                                            ''max_tokens'' \<mapsto> PyInt (arg_max_new_tokens a)] w4
                   in (Inr \<lparr>model_url = arg_model_url a, model_path = p,
                            temperature = arg_temperature a,
                            max_new_tokens = arg_max_new_tokens a,
                            context_window = arg_context_window a,
                            messages_to_prompt = m2p, completion_to_prompt = c2p,
                            generate_kwargs = dicts w5 gk, model_kwargs = dicts w5 mk,
                            verbose = arg_verbose a, model = m\<rparr>, w5))))"

subsection \<open>Completion, streaming and chat\<close>

text \<open>
  The operations work on the object and the external state. The decorators
  \<^verbatim>\<open>llm_completion_callback\<close> and \<^verbatim>\<open>llm_chat_callback\<close> belong to the callback
  instrumentation of the framework, which the specification leaves out; the definitions are
  the bodies of the methods. The keyword arguments \<open>kwargs\<close> of a call are accepted and not
  used, as in the source.
\<close>

text \<open>\<^verbatim>\<open>self._model(prompt=prompt, **self.generate_kwargs)\<close>\<close>

definition call_model :: "'e LlamaCPP \<Rightarrow> string \<Rightarrow> 'e \<Rightarrow> (error + engine_output) \<times> 'e" where
  "call_model self prompt s =
     (case keyword_clash ''prompt'' (generate_kwargs self) of
        Some e \<Rightarrow> (Inl e, s)
      | None \<Rightarrow> model self prompt (generate_kwargs self) s)"

definition complete ::
  "'e LlamaCPP \<Rightarrow> string \<Rightarrow> kwargs \<Rightarrow> 'e \<Rightarrow> (error + CompletionResponse) \<times> 'e LlamaCPP \<times> 'e" where
  "complete self prompt kwargs s =
     (let self1 = self\<lparr>generate_kwargs := (generate_kwargs self)(''stream'' \<mapsto> PyBool False)\<rparr>
      in case completion_to_prompt self1 prompt s of
           (Inl e, s1) \<Rightarrow> (Inl e, self1, s1)
         | (Inr prompt1, s1) \<Rightarrow>
             (case call_model self1 prompt1 s1 of
                (Inl e, s2) \<Rightarrow> (Inl e, self1, s2)
              | (Inr (ChunkStream cs err), s2) \<Rightarrow>
                  (Inl (TypeError ''object is not subscriptable''), self1, s2)
              | (Inr (Completion response), s2) \<Rightarrow>
                  (case choices response of
                     [] \<Rightarrow> (Inl (IndexError ''list index out of range''), self1, s2)
                   | c # cs \<Rightarrow>
                       (Inr \<lparr>text = choice.text c, delta = None, raw = response\<rparr>, self1, s2))))"

text \<open>
  The generator \<^verbatim>\<open>gen\<close> of \<^verbatim>\<open>stream_complete\<close>, run to its end: the responses it yields, in
  order, and the exception that ends it, if one does. \<open>txt\<close> is the local variable
  \<^verbatim>\<open>text\<close> of the loop, the chunk list and \<open>err\<close> are the engine's iterator.
\<close>

fun gen :: "string \<Rightarrow> response list \<Rightarrow> error option \<Rightarrow> CompletionResponse list \<times> error option" where
  "gen txt [] err = ([], err)"
| "gen txt (response # rest) err =
     (case choices response of
        [] \<Rightarrow> ([], Some (IndexError ''list index out of range''))
      | c # cs \<Rightarrow>
          (let d = choice.text c;
               txt1 = txt @ d;
               (ys, e) = gen txt1 rest err
           in (\<lparr>text = txt1, delta = Some d, raw = response\<rparr> # ys, e)))"

text \<open>
  \<^verbatim>\<open>stream_complete\<close> returns the generator; the result here is what the generator yields
  when the caller consumes it. Iterating over a response that is not an iterator of chunks
  fails at the first element.
\<close>

definition stream_complete ::
  "'e LlamaCPP \<Rightarrow> string \<Rightarrow> kwargs \<Rightarrow> 'e \<Rightarrow>
     (error + CompletionResponse list \<times> error option) \<times> 'e LlamaCPP \<times> 'e" where
  "stream_complete self prompt kwargs s =
     (let self1 = self\<lparr>generate_kwargs := (generate_kwargs self)(''stream'' \<mapsto> PyBool True)\<rparr>
      in case completion_to_prompt self1 prompt s of
           (Inl e, s1) \<Rightarrow> (Inl e, self1, s1)
         | (Inr prompt1, s1) \<Rightarrow>
             (case call_model self1 prompt1 s1 of
                (Inl e, s2) \<Rightarrow> (Inl e, self1, s2)
              | (Inr (Completion response), s2) \<Rightarrow>
                  (Inr ([], Some (TypeError ''string indices must be integers'')), self1, s2)
              | (Inr (ChunkStream cs err), s2) \<Rightarrow> (Inr (gen [] cs err), self1, s2)))"

text \<open>
  Modelled from the spec: \<^verbatim>\<open>completion_response_to_chat_response\<close> of
  \<^verbatim>\<open>llama_index.llms.generic_utils\<close> is not part of the sources at hand. The specification
  has it repackage a completion as a chat-shaped response: the same text and raw fields,
  framed as an assistant reply.
\<close>

definition completion_response_to_chat_response :: "CompletionResponse \<Rightarrow> ChatResponse" where
  "completion_response_to_chat_response cr =
     \<lparr>message = \<lparr>role = ''assistant'', content = CompletionResponse.text cr\<rparr>,
      raw = CompletionResponse.raw cr\<rparr>"

definition chat ::
  "'e LlamaCPP \<Rightarrow> ChatMessage list \<Rightarrow> kwargs \<Rightarrow> 'e \<Rightarrow> (error + ChatResponse) \<times> 'e LlamaCPP \<times> 'e" where
  "chat self messages kwargs s =
     (case messages_to_prompt self messages s of
        (Inl e, s1) \<Rightarrow> (Inl e, self, s1)
      | (Inr prompt, s1) \<Rightarrow>
          (case complete self prompt kwargs s1 of
             (Inl e, self1, s2) \<Rightarrow> (Inl e, self1, s2)
           | (Inr completion_response, self1, s2) \<Rightarrow>
               (Inr (completion_response_to_chat_response completion_response), self1, s2)))"

subsection \<open>Auxiliary notions and a running example\<close>

text \<open>
  \<^verbatim>\<open>open(p, "wb")\<close> succeeds: \<open>p\<close> is not a directory and its directory exists.
\<close>

definition writable :: "string \<Rightarrow> world \<Rightarrow> bool" where
  "writable p w \<longleftrightarrow>
     nodes w p \<noteq> Some Dir \<and> (os_path_dirname p = [] \<or> nodes w (os_path_dirname p) = Some Dir)"

text \<open>The in-order concatenation of the \<open>delta\<close> fields of a sequence of responses.\<close>

definition deltas :: "CompletionResponse list \<Rightarrow> string" where
  "deltas ys = concat (map (\<lambda>r. case delta r of None \<Rightarrow> [] | Some d \<Rightarrow> d) ys)"

text \<open>
  An engine for the examples: it counts its calls in the external state, streams two chunks
  when asked to stream, and otherwise answers with two choices.
\<close>

definition example_chunks :: "response list" where
  "example_chunks =
     [\<lparr>choices = [\<lparr>choice.text = ''Hel''\<rparr>]\<rparr>,
      \<lparr>choices = [\<lparr>choice.text = ''lo''\<rparr>, \<lparr>choice.text = ''p''\<rparr>]\<rparr>]"

definition example_engine :: "nat engine" where
  "example_engine prompt kw n =
     (if kw ''stream'' = Some (PyBool True) then (Inr (ChunkStream example_chunks None), Suc n)
      else (Inr (Completion \<lparr>choices = [\<lparr>choice.text = prompt @ ''!''\<rparr>, \<lparr>choice.text = ''?''\<rparr>]\<rparr>),
            Suc n))"

definition example_llm :: "nat LlamaCPP" where
  "example_llm =
     \<lparr>model_url = ''https://host/dir/model.bin'', model_path = ''/cache/models/model.bin'',
      temperature = 0x3FB999999999999A, max_new_tokens = 256, context_window = 3900,
      messages_to_prompt = (\<lambda>ms s. (Inr (concat (map content ms)), s)),
      completion_to_prompt = (\<lambda>x s. (Inr (''Q: '' @ x), s)),
      generate_kwargs = [''temperature'' \<mapsto> PyFloat 0x3FB999999999999A,
                         ''max_tokens'' \<mapsto> PyInt 256],
      model_kwargs = [''n_ctx'' \<mapsto> PyInt 3900, ''verbose'' \<mapsto> PyBool True],
      verbose = True, model = example_engine\<rparr>"

text \<open>
  A world for the examples: the directory of the cache exists, the artifact is not there yet.
  The first response declares a megabyte and carries three bytes; the second carries the same
  three bytes and no \<^verbatim>\<open>Content-Length\<close>.
\<close>

definition example_url :: string where
  "example_url = ''https://host/dir/model.bin''"

definition example_path :: string where
  "example_path = ''/cache/models/model.bin''"

definition example_world :: world where
  "example_world =
     \<lparr>nodes = [''/cache'' \<mapsto> Dir, ''/cache/models'' \<mapsto> Dir], net_log = [], console = [],
      dicts = (\<lambda>r. Map.empty), next_ref = 0\<rparr>"

definition short_body_response :: http_response where
  "short_body_response =
     \<lparr>headers = [''Content-Length'' \<mapsto> ''1000000''], body = [[1, 2], [3]], body_error = None\<rparr>"

definition no_length_response :: http_response where
  "no_length_response = \<lparr>headers = Map.empty, body = [[1, 2], [3]], body_error = None\<rparr>"

text \<open>Three behaviours of \<^verbatim>\<open>requests.get\<close>: the two responses, and a connection that fails.\<close>

definition short_body_requests :: requests where
  "short_body_requests url = Inr short_body_response"

definition no_length_requests :: requests where
  "no_length_requests url = Inr no_length_response"

definition failing_requests :: requests where
  "failing_requests url = Inl (RequestException ''connection refused'')"

text \<open>
  The path at which the constructor looks for the artifact: the explicit path when one is
  given, the path in the cache otherwise.
\<close>

definition resolved_path :: "'e env \<Rightarrow> 'e init_args \<Rightarrow> string" where
  "resolved_path env a =
     (case arg_model_path a of Some p \<Rightarrow> p | None \<Rightarrow> cache_path env (arg_model_url a))"

text \<open>
  An environment and arguments for the examples: the library is installed and builds the
  example engine from any file, the cache is \<^verbatim>\<open>/cache\<close>, the download answers with the
  first response; no explicit path and no dictionaries are given.
\<close>

definition example_env :: "nat env" where
  "example_env =
     \<lparr>llama_cpp = Some (\<lambda>p kw fs. Inr example_engine), get_cache_dir = ''/cache'',
      requests_get = short_body_requests,
      generic_messages_to_prompt = (\<lambda>ms s. (Inr (concat (map content ms)), s))\<rparr>"

definition example_args :: "nat init_args" where
  "example_args =
     \<lparr>arg_model_url = example_url, arg_model_path = None,
      arg_temperature = 0x3FB999999999999A, arg_max_new_tokens = 256,
      arg_context_window = 3900, arg_messages_to_prompt = None,
      arg_completion_to_prompt = None, arg_generate_kwargs = None, arg_model_kwargs = None,
      arg_verbose = True\<rparr>"

text \<open>The world in which the artifact is already in the cache.\<close>

definition cached_world :: world where
  "cached_world = example_world\<lparr>nodes := (nodes example_world)(example_path \<mapsto> File [1, 2, 3])\<rparr>"

text \<open>
  A world of the caller's dictionaries: two with entries at the addresses 0 and 1, an
  empty one at the address 2.
\<close>

definition caller_world :: world where
  "caller_world =
     cached_world\<lparr>dicts := (\<lambda>r. Map.empty)
                      (0 := [''n_ctx'' \<mapsto> PyInt 512, ''seed'' \<mapsto> PyInt 7],
                       1 := [''temperature'' \<mapsto> PyFloat 0, ''top_k'' \<mapsto> PyInt 40]),
                  next_ref := 3\<rparr>"

text \<open>The world with an empty file system: not even the directory of the cache exists.\<close>

definition empty_world :: world where
  "empty_world = example_world\<lparr>nodes := Map.empty\<rparr>"

text \<open>
  Two calls in that world: one hands over the two dictionaries with entries, the other
  hands over the empty dictionary for both options.
\<close>

definition caller_args :: "nat init_args" where
  "caller_args = example_args\<lparr>arg_generate_kwargs := Some 1, arg_model_kwargs := Some 0\<rparr>"

definition empty_dict_args :: "nat init_args" where
  "empty_dict_args = example_args\<lparr>arg_generate_kwargs := Some 2, arg_model_kwargs := Some 2\<rparr>"

text \<open>
  Three more responses with the same three bytes: one declares 999,999 bytes, one pads that
  number with a no-break space (which \<^verbatim>\<open>int\<close> skips), and one appends the character 31 to
  1,000,000 (which \<^verbatim>\<open>int\<close> refuses).
\<close>

definition below_minimum_response :: http_response where
  "below_minimum_response =
     \<lparr>headers = [''Content-Length'' \<mapsto> ''999999''], body = [[1, 2], [3]], body_error = None\<rparr>"

definition padded_response :: http_response where
  "padded_response =
     \<lparr>headers = [''Content-Length'' \<mapsto> CHR 0xA0 # ''999999''], body = [[1, 2], [3]],
      body_error = None\<rparr>"

definition malformed_response :: http_response where
  "malformed_response =
     \<lparr>headers = [''Content-Length'' \<mapsto> ''1000000'' @ [CHR 0x1F]], body = [[1, 2], [3]],
      body_error = None\<rparr>"

definition below_minimum_requests :: requests where
  "below_minimum_requests url = Inr below_minimum_response"

definition padded_requests :: requests where
  "padded_requests url = Inr padded_response"

definition malformed_requests :: requests where
  "malformed_requests url = Inr malformed_response"

section \<open>Properties of the streaming generator\<close>

lemma gen_text_prefix:
  "i < length (fst (gen t0 cs err)) \<Longrightarrow>
     CompletionResponse.text (fst (gen t0 cs err) ! i) = t0 @ deltas (take (Suc i) (fst (gen t0 cs err)))"
proof (induction cs arbitrary: t0 i)
  case Nil
  then show ?case by simp
next
  case (Cons r rest)
  show ?case
  proof (cases "choices r")
    case Nil
    with Cons.prems show ?thesis by simp
  next
    case (Cons c cs')
    obtain ys e where g: "gen (t0 @ choice.text c) rest err = (ys, e)" by (cases "gen (t0 @ choice.text c) rest err")
    show ?thesis
    proof (cases i)
      case 0
      then show ?thesis using Cons g by (simp add: deltas_def Let_def)
    next
      case (Suc j)
      with Cons.prems Cons g have "j < length (fst (gen (t0 @ choice.text c) rest err))" by (simp add: Let_def)
      from Cons.IH[OF this] show ?thesis using Suc Cons g by (simp add: deltas_def Let_def)
    qed
  qed
qed

lemma gen_length: "length (fst (gen t0 cs err)) \<le> length cs"
proof (induction cs arbitrary: t0)
  case Nil
  then show ?case by simp
next
  case (Cons r rest)
  show ?case
  proof (cases "choices r")
    case Nil
    then show ?thesis by simp
  next
    case (Cons c cs')
    from Cons.IH[of "t0 @ choice.text c"] Cons show ?thesis
      by (auto simp: Let_def split: prod.splits)
  qed
qed

lemma gen_nth:
  "i < length (fst (gen t0 cs err)) \<Longrightarrow>
     choices (cs ! i) \<noteq> [] \<and>
     delta (fst (gen t0 cs err) ! i) = Some (choice.text (hd (choices (cs ! i)))) \<and>
     CompletionResponse.raw (fst (gen t0 cs err) ! i) = cs ! i"
proof (induction cs arbitrary: t0 i)
  case Nil
  then show ?case by simp
next
  case (Cons r rest)
  show ?case
  proof (cases "choices r")
    case Nil
    with Cons.prems show ?thesis by simp
  next
    case (Cons c cs')
    obtain ys e where g: "gen (t0 @ choice.text c) rest err = (ys, e)" by (cases "gen (t0 @ choice.text c) rest err")
    show ?thesis
    proof (cases i)
      case 0
      then show ?thesis using Cons g by (simp add: Let_def)
    next
      case (Suc j)
      with Cons.prems Cons g have "j < length (fst (gen (t0 @ choice.text c) rest err))" by (simp add: Let_def)
      from Cons.IH[OF this] show ?thesis using Suc Cons g by (simp add: Let_def)
    qed
  qed
qed

lemma gen_all:
  "list_all (\<lambda>r. choices r \<noteq> []) cs \<Longrightarrow> length (fst (gen t0 cs err)) = length cs \<and> snd (gen t0 cs err) = err"
proof (induction cs arbitrary: t0)
  case Nil
  then show ?case by simp
next
  case (Cons r rest)
  then obtain c cs' where c: "choices r = c # cs'" by (cases "choices r") auto
  from Cons.prems have "list_all (\<lambda>r. choices r \<noteq> []) rest" by simp
  from Cons.IH[OF this, of "t0 @ choice.text c"] c show ?case
    by (auto simp: Let_def split: prod.splits)
qed


text \<open>
  C1. In streaming mode (the generation options hold no \<^verbatim>\<open>prompt\<close> key, so that the call of
  the engine is well formed), whatever finite sequence of chunks \<open>cs\<close> the engine produces,
  \<open>stream_complete\<close> returns a generator, and every response it yields has as \<open>text\<close> the
  in-order concatenation of the \<open>delta\<close> fields of the responses yielded so far, the current
  one included; the \<open>delta\<close> is the text of the first choice of the chunk and \<open>raw\<close> is the
  chunk. The text of the last yielded response is the concatenation of all deltas, and when
  every chunk has a choice, one response is yielded per chunk.
\<close>

theorem stream_complete_text_is_concat_of_deltas:
  assumes c2p: "completion_to_prompt self prompt s = (Inr p1, s1)"
    and nk: "generate_kwargs self ''prompt'' = None"
    and eng: "model self p1 ((generate_kwargs self)(''stream'' \<mapsto> PyBool True)) s1
                = (Inr (ChunkStream cs err), s2)"
  shows "\<exists>ys e.
           stream_complete self prompt kwargs s
             = (Inr (ys, e), self\<lparr>generate_kwargs := (generate_kwargs self)(''stream'' \<mapsto> PyBool True)\<rparr>, s2)
         \<and> length ys \<le> length cs
         \<and> (\<forall>i<length ys.
               CompletionResponse.text (ys ! i) = deltas (take (Suc i) ys)
             \<and> delta (ys ! i) = Some (choice.text (hd (choices (cs ! i))))
             \<and> CompletionResponse.raw (ys ! i) = cs ! i)
         \<and> (ys \<noteq> [] \<longrightarrow> CompletionResponse.text (last ys) = deltas ys)
         \<and> (list_all (\<lambda>r. choices r \<noteq> []) cs \<longrightarrow> length ys = length cs \<and> e = err)"
proof -
  let ?ys = "fst (gen [] cs err)" and ?e = "snd (gen [] cs err)"
  have run: "stream_complete self prompt kwargs s
      = (Inr (?ys, ?e), self\<lparr>generate_kwargs := (generate_kwargs self)(''stream'' \<mapsto> PyBool True)\<rparr>, s2)"
    using c2p nk eng by (simp add: stream_complete_def call_model_def keyword_clash_def Let_def)
  have len: "length ?ys \<le> length cs" by (rule gen_length)
  have each: "\<forall>i<length ?ys.
               CompletionResponse.text (?ys ! i) = deltas (take (Suc i) ?ys)
             \<and> delta (?ys ! i) = Some (choice.text (hd (choices (cs ! i))))
             \<and> CompletionResponse.raw (?ys ! i) = cs ! i"
    using gen_text_prefix[of _ "[]" cs err] gen_nth[of _ "[]" cs err] by simp
  have fin: "?ys \<noteq> [] \<longrightarrow> CompletionResponse.text (last ?ys) = deltas ?ys"
  proof
    assume ne: "?ys \<noteq> []"
    then have "length ?ys - 1 < length ?ys" by simp
    from gen_text_prefix[OF this] ne show "CompletionResponse.text (last ?ys) = deltas ?ys"
      by (simp add: last_conv_nth)
  qed
  have all: "list_all (\<lambda>r. choices r \<noteq> []) cs \<longrightarrow> length ?ys = length cs \<and> ?e = err"
    using gen_all[of cs "[]" err] by simp
  from run len each fin all show ?thesis by blast
qed

theorem stream_complete_text_is_concat_of_deltas_witness:
  "completion_to_prompt example_llm ''Hi'' 0 = (Inr ''Q: Hi'', 0)
   \<and> generate_kwargs example_llm ''prompt'' = None
   \<and> model example_llm ''Q: Hi'' ((generate_kwargs example_llm)(''stream'' \<mapsto> PyBool True)) 0
        = (Inr (ChunkStream example_chunks None), 1)
   \<and> fst (stream_complete example_llm ''Hi'' Map.empty 0)
        = Inr ([\<lparr>text = ''Hel'', delta = Some ''Hel'', raw = example_chunks ! 0\<rparr>,
                \<lparr>text = ''Hello'', delta = Some ''lo'', raw = example_chunks ! 1\<rparr>], None)
   \<and> CompletionResponse.text \<lparr>text = ''Hello'', delta = Some ''lo'', raw = example_chunks ! 1\<rparr>
        = deltas [\<lparr>text = ''Hel'', delta = Some ''Hel'', raw = example_chunks ! 0\<rparr>,
                  \<lparr>text = ''Hello'', delta = Some ''lo'', raw = example_chunks ! 1\<rparr>]"
proof -
  let ?ys = "[\<lparr>text = ''Hel'', delta = Some ''Hel'', raw = example_chunks ! 0\<rparr>,
              \<lparr>text = ''Hello'', delta = Some ''lo'', raw = example_chunks ! 1\<rparr>]"
  have h1: "completion_to_prompt example_llm ''Hi'' 0 = (Inr ''Q: Hi'', 0)"
    by (simp add: example_llm_def)
  have h2: "model example_llm ''Q: Hi'' ((generate_kwargs example_llm)(''stream'' \<mapsto> PyBool True)) 0
        = (Inr (ChunkStream example_chunks None), 1)"
    by (simp add: example_llm_def example_engine_def)
  have hk: "generate_kwargs example_llm ''prompt'' = None"
    by (simp add: example_llm_def)
  have run: "fst (stream_complete example_llm ''Hi'' Map.empty 0) = Inr (?ys, None)"
    using h1 hk h2
    by (simp add: stream_complete_def call_model_def keyword_clash_def Let_def example_chunks_def)
  from stream_complete_text_is_concat_of_deltas[OF h1 hk h2, of Map.empty]
  obtain ys e where
    r: "fst (stream_complete example_llm ''Hi'' Map.empty 0) = Inr (ys, e)"
    and l: "ys \<noteq> [] \<longrightarrow> CompletionResponse.text (last ys) = deltas ys"
    by auto
  from r run have "ys = ?ys" by simp
  with l have "CompletionResponse.text (last ?ys) = deltas ?ys" by simp
  with h1 hk h2 run show ?thesis by simp
qed

section \<open>Properties of completion and chat\<close>

text \<open>
  C3. \<open>complete\<close> applies the configured \<open>completion_to_prompt\<close> to the input prompt, calls
  the engine with \<^verbatim>\<open>stream\<close> set to \<^verbatim>\<open>False\<close>, and returns the text of the first choice of
  the engine's response as it is, together with the raw response. The generation options
  hold no \<^verbatim>\<open>prompt\<close> key, so that the call of the engine is well formed.
\<close>

theorem complete_returns_first_choice_text:
  assumes c2p: "completion_to_prompt self prompt s = (Inr p1, s1)"
    and nk: "generate_kwargs self ''prompt'' = None"
    and eng: "model self p1 ((generate_kwargs self)(''stream'' \<mapsto> PyBool False)) s1
                = (Inr (Completion r), s2)"
    and first: "choices r = c # cs"
  shows "complete self prompt kwargs s
           = (Inr \<lparr>text = choice.text c, delta = None, raw = r\<rparr>,
              self\<lparr>generate_kwargs := (generate_kwargs self)(''stream'' \<mapsto> PyBool False)\<rparr>, s2)"
  using c2p nk eng first by (simp add: complete_def call_model_def keyword_clash_def Let_def)

theorem complete_returns_first_choice_text_witness:
  "completion_to_prompt example_llm ''Hi'' 0 = (Inr ''Q: Hi'', 0)
   \<and> generate_kwargs example_llm ''prompt'' = None
   \<and> model example_llm ''Q: Hi'' ((generate_kwargs example_llm)(''stream'' \<mapsto> PyBool False)) 0
        = (Inr (Completion \<lparr>choices = [\<lparr>choice.text = ''Q: Hi!''\<rparr>, \<lparr>choice.text = ''?''\<rparr>]\<rparr>), 1)
   \<and> choices \<lparr>choices = [\<lparr>choice.text = ''Q: Hi!''\<rparr>, \<lparr>choice.text = ''?''\<rparr>]\<rparr>
        = \<lparr>choice.text = ''Q: Hi!''\<rparr> # [\<lparr>choice.text = ''?''\<rparr>]
   \<and> complete example_llm ''Hi'' Map.empty 0
        = (Inr \<lparr>text = ''Q: Hi!'', delta = None,
                raw = \<lparr>choices = [\<lparr>choice.text = ''Q: Hi!''\<rparr>, \<lparr>choice.text = ''?''\<rparr>]\<rparr>\<rparr>,
           example_llm\<lparr>generate_kwargs := (generate_kwargs example_llm)(''stream'' \<mapsto> PyBool False)\<rparr>, 1)"
proof -
  have h1: "completion_to_prompt example_llm ''Hi'' 0 = (Inr ''Q: Hi'', 0)"
    by (simp add: example_llm_def)
  have h2: "model example_llm ''Q: Hi'' ((generate_kwargs example_llm)(''stream'' \<mapsto> PyBool False)) 0
        = (Inr (Completion \<lparr>choices = [\<lparr>choice.text = ''Q: Hi!''\<rparr>, \<lparr>choice.text = ''?''\<rparr>]\<rparr>), 1)"
    by (simp add: example_llm_def example_engine_def)
  have h3: "choices \<lparr>choices = [\<lparr>choice.text = ''Q: Hi!''\<rparr>, \<lparr>choice.text = ''?''\<rparr>]\<rparr>
        = \<lparr>choice.text = ''Q: Hi!''\<rparr> # [\<lparr>choice.text = ''?''\<rparr>]"
    by simp
  have hk: "generate_kwargs example_llm ''prompt'' = None"
    by (simp add: example_llm_def)
  from complete_returns_first_choice_text[OF h1 hk h2 h3, of Map.empty] h1 hk h2 h3 show ?thesis
    by simp
qed

lemma chat_formatter_raises:
  "messages_to_prompt self messages s = (Inl e, s1) \<Longrightarrow> chat self messages kwargs s = (Inl e, self, s1)"
  by (simp add: chat_def)

text \<open>
  C2. \<open>chat\<close> on a message sequence is \<open>complete\<close> on the prompt that the configured
  \<open>messages_to_prompt\<close> makes of it: the same outcome, repackaged as an assistant reply with
  the same text and raw fields, and the same final object and external state, so that
  \<open>chat\<close> has no effect beyond those of the formatter and of that call of \<open>complete\<close>.
\<close>

theorem chat_is_complete_after_messages_to_prompt:
  assumes m2p: "messages_to_prompt self messages s = (Inr prompt, s1)"
  shows "fst (chat self messages kwargs s)
           = map_sum id completion_response_to_chat_response (fst (complete self prompt kwargs s1))
       \<and> snd (chat self messages kwargs s) = snd (complete self prompt kwargs s1)
       \<and> (\<forall>cr. fst (complete self prompt kwargs s1) = Inr cr \<longrightarrow>
             (\<exists>ch. fst (chat self messages kwargs s) = Inr ch
                  \<and> role (message ch) = ''assistant''
                  \<and> content (message ch) = CompletionResponse.text cr
                  \<and> ChatResponse.raw ch = CompletionResponse.raw cr))"
proof -
  obtain res self1 s2 where c: "complete self prompt kwargs s1 = (res, self1, s2)"
    by (cases "complete self prompt kwargs s1") auto
  show ?thesis
  proof (cases res)
    case (Inl e)
    with m2p c show ?thesis by (simp add: chat_def)
  next
    case (Inr cr)
    with m2p c show ?thesis by (simp add: chat_def completion_response_to_chat_response_def)
  qed
qed

theorem chat_is_complete_after_messages_to_prompt_witness:
  "messages_to_prompt example_llm [\<lparr>role = ''user'', content = ''Hi''\<rparr>] 0 = (Inr ''Hi'', 0)
   \<and> fst (chat example_llm [\<lparr>role = ''user'', content = ''Hi''\<rparr>] Map.empty 0)
        = map_sum id completion_response_to_chat_response (fst (complete example_llm ''Hi'' Map.empty 0))
   \<and> snd (chat example_llm [\<lparr>role = ''user'', content = ''Hi''\<rparr>] Map.empty 0)
        = snd (complete example_llm ''Hi'' Map.empty 0)
   \<and> fst (chat example_llm [\<lparr>role = ''user'', content = ''Hi''\<rparr>] Map.empty 0)
        = Inr \<lparr>message = \<lparr>role = ''assistant'', content = ''Q: Hi!''\<rparr>,
               raw = \<lparr>choices = [\<lparr>choice.text = ''Q: Hi!''\<rparr>, \<lparr>choice.text = ''?''\<rparr>]\<rparr>\<rparr>"
proof -
  have h: "messages_to_prompt example_llm [\<lparr>role = ''user'', content = ''Hi''\<rparr>] 0 = (Inr ''Hi'', 0)"
    by (simp add: example_llm_def)
  have c: "fst (complete example_llm ''Hi'' Map.empty 0)
      = Inr \<lparr>text = ''Q: Hi!'', delta = None,
              raw = \<lparr>choices = [\<lparr>choice.text = ''Q: Hi!''\<rparr>, \<lparr>choice.text = ''?''\<rparr>]\<rparr>\<rparr>"
    by (simp add: complete_def call_model_def keyword_clash_def example_llm_def
          example_engine_def Let_def)
  from chat_is_complete_after_messages_to_prompt[OF h, of Map.empty] h c show ?thesis
    by (simp add: completion_response_to_chat_response_def)
qed

section \<open>Properties of the download routine\<close>

subsection \<open>What each step changes\<close>

lemma print_fields [simp]:
  "nodes (print a w) = nodes w" "net_log (print a w) = net_log w"
  "dicts (print a w) = dicts w" "next_ref (print a w) = next_ref w"
  by (simp_all add: print_def)

lemma write_chunks_nodes:
  "nodes w p = Some (File b) \<Longrightarrow> nodes (write_chunks p cs w) = (nodes w)(p \<mapsto> File (b @ concat cs))"
proof (induction cs arbitrary: w b)
  case Nil
  then show ?case by (simp add: fun_upd_idem)
next
  case (Cons c cs)
  have "nodes (file_write p c w) p = Some (File (b @ c))"
    using Cons.prems by (simp add: file_write_def)
  from Cons.IH[OF this] have "nodes (write_chunks p cs (file_write p c w))
      = (nodes (file_write p c w))(p \<mapsto> File ((b @ c) @ concat cs))" .
  also have "\<dots> = (nodes w)(p \<mapsto> File (b @ concat (c # cs)))"
    by (simp add: file_write_def)
  finally show ?case by simp
qed

lemma write_chunks_frame [simp]:
  "net_log (write_chunks p cs w) = net_log w"
  "dicts (write_chunks p cs w) = dicts w"
  "next_ref (write_chunks p cs w) = next_ref w"
  by (induction cs arbitrary: w; simp add: file_write_def)+

lemma open_wb_writable:
  "writable p w \<Longrightarrow> open_wb p w = (Inr (), w\<lparr>nodes := (nodes w)(p \<mapsto> File [])\<rparr>)"
  by (auto simp: writable_def open_wb_def)

lemma open_wb_not_writable:
  "\<not> writable p w \<Longrightarrow> \<exists>e. open_wb p w = (Inl e, w)"
  by (auto simp: writable_def open_wb_def)


lemma write_chunks_other: "q \<noteq> p \<Longrightarrow> nodes (write_chunks p cs w) q = nodes w q"
  by (induction cs arbitrary: w) (simp_all add: file_write_def)

lemma overflow_mono: "true_div_overflows n (1024 * 1024) \<Longrightarrow> true_div_overflows n 1000"
proof -
  assume a: "true_div_overflows n (1024 * 1024)"
  have pos: "(0::int) \<le> 2 ^ 1024 - 2 ^ 970"
    by (simp add: power_increasing)
  have "(1000::int) * (2 ^ 1024 - 2 ^ 970) \<le> \<bar>1024 * 1024\<bar> * (2 ^ 1024 - 2 ^ 970)"
    using pos by (intro mult_right_mono) simp_all
  with a show ?thesis unfolding true_div_overflows_def by simp
qed

lemma write_body_rejected: "size_check r = Inl e \<Longrightarrow> write_body r p w = (Some e, w)"
  by (simp add: write_body_def)

lemma write_body_accepted:
  "size_check r = Inr n \<Longrightarrow> \<not> true_div_overflows n 1000 \<Longrightarrow>
     write_body r p w
       = (body_error r, write_chunks p (body r) (print [Str ''total size (MB):'', RoundedMB n] w))"
  using overflow_mono[of n] by (auto simp: write_body_def Let_def)

lemma write_body_frame:
  "net_log (snd (write_body r p w)) = net_log w"
  "dicts (snd (write_body r p w)) = dicts w"
  "next_ref (snd (write_body r p w)) = next_ref w"
  "q \<noteq> p \<Longrightarrow> nodes (snd (write_body r p w)) q = nodes w q"
  by (auto simp: write_body_def Let_def write_chunks_other split: sum.splits)

lemma write_body_file:
  "nodes w p = Some (File b) \<Longrightarrow> \<exists>b'. nodes (snd (write_body r p w)) p = Some (File b')"
  by (auto simp: write_body_def Let_def write_chunks_nodes split: sum.splits)

lemma download_try_get_raises:
  "rg url = Inl e \<Longrightarrow>
     fst (download_try rg url p w) = Some e \<and>
     nodes (snd (download_try rg url p w)) = nodes w"
  by (simp add: download_try_def Let_def)

lemma download_try_open_raises:
  "rg url = Inr r \<Longrightarrow> \<not> writable p w \<Longrightarrow>
     (\<exists>e. fst (download_try rg url p w) = Some e) \<and>
     nodes (snd (download_try rg url p w)) = nodes w"
  by (auto simp: download_try_def Let_def writable_def open_wb_def)

lemma download_try_opened:
  "rg url = Inr r \<Longrightarrow> writable p w \<Longrightarrow>
     download_try rg url p w
       = write_body r p
           ((print [Str ''Downloading url'', Str url, Str ''to path'', Str p] w)
              \<lparr>net_log := net_log w @ [url], nodes := (nodes w)(p \<mapsto> File [])\<rparr>)"
  by (simp add: download_try_def Let_def open_wb_writable writable_def open_wb_def print_def)

lemma download_try_frame:
  "net_log (snd (download_try rg url p w)) = net_log w @ [url]"
  "dicts (snd (download_try rg url p w)) = dicts w"
  "next_ref (snd (download_try rg url p w)) = next_ref w"
  "q \<noteq> p \<Longrightarrow> nodes (snd (download_try rg url p w)) q = nodes w q"
  by (auto simp: download_try_def Let_def open_wb_def write_body_frame split: sum.splits)

lemma os_remove_frame:
  "net_log (snd (os_remove p w)) = net_log w"
  "dicts (snd (os_remove p w)) = dicts w"
  "next_ref (snd (os_remove p w)) = next_ref w"
  "q \<noteq> p \<Longrightarrow> nodes (snd (os_remove p w)) q = nodes w q"
  "\<not> is_file (snd (os_remove p w)) p"
  by (auto simp: os_remove_def is_file_def split: option.splits node.splits)

lemma download_url_frame:
  "net_log (snd (download_url rg url p w)) = net_log w @ [url]"
  "dicts (snd (download_url rg url p w)) = dicts w"
  "next_ref (snd (download_url rg url p w)) = next_ref w"
  "q \<noteq> p \<Longrightarrow> nodes (snd (download_url rg url p w)) q = nodes w q"
proof -
  obtain out w1 where t: "download_try rg url p w = (out, w1)"
    by (cases "download_try rg url p w")
  have f: "net_log w1 = net_log w @ [url]" "dicts w1 = dicts w" "next_ref w1 = next_ref w"
    "q \<noteq> p \<Longrightarrow> nodes w1 q = nodes w q"
    using t download_try_frame[where rg=rg and url=url and p=p and w=w] by simp_all
  show "net_log (snd (download_url rg url p w)) = net_log w @ [url]"
    using t f by (auto simp: download_url_def Let_def os_remove_def split: option.splits node.splits prod.splits sum.splits)
  show "dicts (snd (download_url rg url p w)) = dicts w"
    using t f by (auto simp: download_url_def Let_def os_remove_def split: option.splits node.splits prod.splits sum.splits)
  show "next_ref (snd (download_url rg url p w)) = next_ref w"
    using t f by (auto simp: download_url_def Let_def os_remove_def split: option.splits node.splits prod.splits sum.splits)
  show "q \<noteq> p \<Longrightarrow> nodes (snd (download_url rg url p w)) q = nodes w q"
    using t f by (auto simp: download_url_def Let_def os_remove_def split: option.splits node.splits prod.splits sum.splits)
qed

lemma download_url_raises_no_file:
  "fst (download_url rg url p w) = Inl e \<Longrightarrow> \<not> is_file (snd (download_url rg url p w)) p"
  by (auto simp: download_url_def Let_def os_remove_def is_file_def split: option.splits node.splits prod.splits sum.splits)

lemma download_url_raises_iff:
  "isl (fst (download_url rg url p w)) \<longleftrightarrow> fst (download_try rg url p w) \<noteq> None"
  by (auto simp: download_url_def Let_def os_remove_def split: option.splits node.splits prod.splits sum.splits)

subsection \<open>The outcomes of a download\<close>

lemma is_file_frame:
  "nodes w' = nodes w \<Longrightarrow> is_file w' = is_file w"
  by (simp add: is_file_def fun_eq_iff)

lemma download_url_get_raises:
  assumes get: "rg url = Inl e" and absent: "nodes w p = None"
  shows "fst (download_url rg url p w)
           = Inl (if list_ex (is_file w) (ancestors p) then NotADirectoryError p
                  else FileNotFoundError p)"
    and "nodes (snd (download_url rg url p w)) = nodes w"
proof -
  let ?w1 = "(print [Str ''Downloading url'', Str url, Str ''to path'', Str p] w)
               \<lparr>net_log := net_log w @ [url]\<rparr>"
  let ?w2 = "if is_Exception e then print [Str ''Error downloading model:'', Exc e] ?w1 else ?w1"
  let ?w3 = "print [Str ''Download incomplete.'', Str ''Removing partially downloaded file.''] ?w2"
  have t: "download_try rg url p w = (Some e, ?w1)"
    using get by (simp add: download_try_def Let_def)
  have n: "nodes ?w3 = nodes w" by simp
  then have f: "is_file ?w3 = is_file w" by (rule is_file_frame)
  have r: "os_remove p ?w3
      = (Inl (if list_ex (is_file w) (ancestors p) then NotADirectoryError p
              else FileNotFoundError p), ?w3)"
    using absent by (simp add: os_remove_def n f)
  have d: "download_url rg url p w
      = (Inl (if list_ex (is_file w) (ancestors p) then NotADirectoryError p
              else FileNotFoundError p), ?w3)"
    using t r by (simp add: download_url_def Let_def)
  show "fst (download_url rg url p w)
           = Inl (if list_ex (is_file w) (ancestors p) then NotADirectoryError p
                  else FileNotFoundError p)"
    using d by simp
  show "nodes (snd (download_url rg url p w)) = nodes w"
    using d n by simp
qed

lemma download_url_fails_after_open:
  assumes get: "rg url = Inr r" and wr: "writable p w"
    and out: "fst (download_try rg url p w) = Some e"
  shows "fst (download_url rg url p w) = Inl (ValueError [PyStr ''Download incomplete.''])"
    and "nodes (snd (download_url rg url p w)) = (nodes w)(p := None)"
proof -
  obtain w1 where t: "download_try rg url p w = (Some e, w1)"
    using out by (cases "download_try rg url p w") auto
  let ?w0 = "(print [Str ''Downloading url'', Str url, Str ''to path'', Str p] w)
              \<lparr>net_log := net_log w @ [url], nodes := (nodes w)(p \<mapsto> File [])\<rparr>"
  have "nodes ?w0 p = Some (File [])" by simp
  from write_body_file[OF this, of r]
  obtain b where b0: "nodes (snd (write_body r p ?w0)) p = Some (File b)" by blast
  have "write_body r p ?w0 = (Some e, w1)"
    using download_try_opened[of rg url r p w, OF get wr] t by simp
  with b0 have b: "nodes w1 p = Some (File b)" by simp
  have other: "\<And>q. q \<noteq> p \<Longrightarrow> nodes w1 q = nodes w q"
    using download_try_frame(4)[of _ p rg url w] t by simp
  let ?w2 = "if is_Exception e then print [Str ''Error downloading model:'', Exc e] w1 else w1"
  let ?w3 = "print [Str ''Download incomplete.'', Str ''Removing partially downloaded file.''] ?w2"
  have n3: "nodes ?w3 = nodes w1" by simp
  have rm: "os_remove p ?w3 = (Inr (), ?w3\<lparr>nodes := (nodes w1)(p := None)\<rparr>)"
    using b by (simp add: os_remove_def)
  have res: "download_url rg url p w
      = (Inl (ValueError [PyStr ''Download incomplete.'']), ?w3\<lparr>nodes := (nodes w1)(p := None)\<rparr>)"
    using t rm by (simp add: download_url_def Let_def)
  show "fst (download_url rg url p w) = Inl (ValueError [PyStr ''Download incomplete.''])"
    using res by simp
  have "(nodes w1)(p := None) = (nodes w)(p := None)"
    using other by (auto simp: fun_eq_iff)
  then show "nodes (snd (download_url rg url p w)) = (nodes w)(p := None)"
    using res by simp
qed

lemma download_try_rejected:
  assumes get: "rg url = Inr r" and wr: "writable p w" and chk: "size_check r = Inl e"
  shows "fst (download_try rg url p w) = Some e"
  using download_try_opened[of rg url r p w, OF get wr] chk by (simp add: write_body_rejected)

lemma download_url_completes:
  assumes get: "rg url = Inr r" and wr: "writable p w"
    and chk: "size_check r = Inr n" and fin: "\<not> true_div_overflows n 1000"
    and ok: "body_error r = None"
  shows "fst (download_url rg url p w) = Inr ()"
    and "nodes (snd (download_url rg url p w)) = (nodes w)(p \<mapsto> File (concat (body r)))"
proof -
  let ?w0 = "(print [Str ''Downloading url'', Str url, Str ''to path'', Str p] w)
              \<lparr>net_log := net_log w @ [url], nodes := (nodes w)(p \<mapsto> File [])\<rparr>"
  let ?w1 = "write_chunks p (body r) (print [Str ''total size (MB):'', RoundedMB n] ?w0)"
  have t: "download_try rg url p w = (None, ?w1)"
    using download_try_opened[of rg url r p w, OF get wr] write_body_accepted[OF chk fin, of p ?w0] ok by simp
  have "nodes (print [Str ''total size (MB):'', RoundedMB n] ?w0) p = Some (File [])" by simp
  from write_chunks_nodes[OF this, of "body r"]
  have n1: "nodes ?w1 = (nodes w)(p \<mapsto> File (concat (body r)))" by simp
  show "fst (download_url rg url p w) = Inr ()"
    using t by (simp add: download_url_def)
  show "nodes (snd (download_url rg url p w)) = (nodes w)(p \<mapsto> File (concat (body r)))"
    using t n1 by (simp add: download_url_def)
qed

lemma size_check_below:
  "content_length r = Inr n \<Longrightarrow> n < 1000000 \<Longrightarrow>
     size_check r = Inl (ValueError [PyStr ''Content should be at least 1 MB, but is only'',
                                     header_arg r, PyStr ''bytes''])"
  by (simp add: size_check_def)

lemma size_check_at_least:
  "content_length r = Inr n \<Longrightarrow> 1000000 \<le> n \<Longrightarrow> size_check r = Inr n"
  by (simp add: size_check_def)

lemma content_length_absent:
  "headers r ''Content-Length'' = None \<Longrightarrow> content_length r = Inr 0"
  by (simp add: content_length_def) code_simp

lemma size_check_headers: "headers r' = headers r \<Longrightarrow> size_check r' = size_check r"
  by (simp add: size_check_def content_length_def header_arg_def split: sum.splits)

lemma download_try_raises_when_rejected:
  assumes get: "rg url = Inr r" and chk: "size_check r = Inl e"
  shows "fst (download_try rg url p w) \<noteq> None"
proof (cases "writable p w")
  case True
  from download_try_rejected[of rg url r p w e, OF get True chk] show ?thesis by simp
next
  case False
  from download_try_open_raises[of rg url r p w, OF get False] show ?thesis by auto
qed

subsection \<open>How \<^verbatim>\<open>int\<close> reads a decimal numeral\<close>

lemma digit_char_code: "d < 10 \<Longrightarrow> (of_char (digit_char d) :: nat) = 48 + d"
proof -
  assume "d < 10"
  then have "d \<in> {0, 1, 2, 3, 4, 5, 6, 7, 8, 9}" by auto
  then show ?thesis by (auto simp: digit_char_def)
qed

lemma digit_char_digit: "d < 10 \<Longrightarrow> is_py_digit (digit_char d)"
  by (simp add: is_py_digit_def digit_char_code)

lemma py_digit_plain:
  assumes "is_py_digit c"
  shows "\<not> is_py_space c" and "c \<noteq> CHR ''_''" and "c \<noteq> CHR ''-''" and "c \<noteq> CHR ''+''"
  using assms by (auto simp: is_py_digit_def is_py_space_def Let_def)

lemma decimal_digits: "list_all is_py_digit (decimal n)"
proof (induction n rule: decimal.induct)
  case (1 n)
  show ?case
  proof (cases "n < 10")
    case True
    then show ?thesis by (simp add: decimal.simps[of n] digit_char_digit)
  next
    case False
    with 1 show ?thesis by (simp add: decimal.simps[of n] digit_char_digit)
  qed
qed

lemma decimal_nonempty: "decimal n \<noteq> []"
  by (simp add: decimal.simps[of n])

lemma digits_value_snoc:
  "c \<noteq> CHR ''_'' \<Longrightarrow> digits_value (s @ [c]) = 10 * digits_value s + (int (of_char c) - 48)"
  by (simp add: digits_value_def)

lemma decimal_value: "digits_value (decimal n) = int n"
proof (induction n rule: decimal.induct)
  case (1 n)
  show ?case
  proof (cases "n < 10")
    case True
    then show ?thesis
      by (simp add: decimal.simps[of n] digits_value_def py_digit_plain(2)[OF digit_char_digit]
            digit_char_code)
  next
    case False
    have d: "n mod 10 < 10" by simp
    from False 1 have "digits_value (decimal (n div 10)) = int (n div 10)" by simp
    then have "digits_value (decimal n) = 10 * int (n div 10) + int (n mod 10)"
      using False
      by (simp add: decimal.simps[of n] digits_value_snoc py_digit_plain(2)[OF digit_char_digit[OF d]]
            digit_char_code[OF d])
    then show ?thesis by (simp add: zdiv_int zmod_int)
  qed
qed

lemma all_digits_valid: "s \<noteq> [] \<Longrightarrow> list_all is_py_digit s \<Longrightarrow> valid_digits s"
proof (induction s rule: valid_digits.induct)
  case 1
  then show ?case by simp
next
  case (2 c)
  then show ?case by simp
next
  case (3 c d cs)
  then show ?case by (simp add: py_digit_plain(2))
qed

lemma all_digits_strip:
  assumes ne: "s \<noteq> []" and dg: "list_all is_py_digit s"
  shows "py_strip s = s"
proof -
  from ne dg have h: "\<not> is_py_space (hd s)" "\<not> is_py_space (last s)"
    by (auto simp: list_all_iff py_digit_plain(1))
  from ne h(1) have 1: "dropWhile is_py_space s = s" by (cases s) auto
  from ne h(2) have 2: "dropWhile is_py_space (rev s) = rev s"
    by (cases "rev s") (auto simp: hd_rev[symmetric])
  show ?thesis by (simp add: py_strip_def 1 2)
qed

lemma py_int_digits:
  assumes ne: "s \<noteq> []" and dg: "list_all is_py_digit s" and len: "length s \<le> int_max_str_digits"
  shows "py_int s = Inr (digits_value s)"
proof -
  have st: "py_strip s = s" by (rule all_digits_strip[OF ne dg])
  have hd: "is_py_digit (hd s)" using ne dg by (cases s) auto
  have sg: "take 1 s \<noteq> ''-''" "take 1 s \<noteq> ''+''"
    using ne py_digit_plain(3,4)[OF hd] by (cases s; simp)+
  have all: "\<And>c. c \<in> set s \<Longrightarrow> is_py_digit c \<or> c = CHR ''_''"
    using dg by (simp add: list_all_iff)
  have tw: "takeWhile (\<lambda>c. is_py_digit c \<or> c = CHR ''_'') s = s"
    using all by (simp add: takeWhile_eq_all_conv)
  have dw: "dropWhile (\<lambda>c. is_py_digit c \<or> c = CHR ''_'') s = []"
    using all by simp
  have fl: "filter is_py_digit s = s" using dg by (simp add: list_all_iff)
  show ?thesis
    using ne sg len all_digits_valid[OF ne dg]
    by (simp add: py_int_def st tw dw fl Let_def)
qed

lemma py_int_decimal:
  "length (decimal n) \<le> int_max_str_digits \<Longrightarrow> py_int (decimal n) = Inr (int n)"
  using py_int_digits[OF decimal_nonempty decimal_digits] by (simp add: decimal_value)

lemma content_length_decimal:
  assumes "headers r ''Content-Length'' = Some (decimal n)"
    and "length (decimal n) \<le> int_max_str_digits"
  shows "content_length r = Inr (int n)"
  using assms by (simp add: content_length_def decimal_nonempty py_int_decimal)

lemma py_int_digits_long:
  assumes ne: "s \<noteq> []" and dg: "list_all is_py_digit s" and len: "int_max_str_digits < length s"
  shows "isl (py_int s)"
proof -
  have st: "py_strip s = s" by (rule all_digits_strip[OF ne dg])
  have hd: "is_py_digit (hd s)" using ne dg by (cases s) auto
  have sg: "take 1 s \<noteq> ''-''" "take 1 s \<noteq> ''+''"
    using ne py_digit_plain(3,4)[OF hd] by (cases s; simp)+
  have all: "\<And>c. c \<in> set s \<Longrightarrow> is_py_digit c \<or> c = CHR ''_''"
    using dg by (simp add: list_all_iff)
  have tw: "takeWhile (\<lambda>c. is_py_digit c \<or> c = CHR ''_'') s = s"
    using all by (simp add: takeWhile_eq_all_conv)
  have fl: "filter is_py_digit s = s" using dg by (simp add: list_all_iff)
  show ?thesis
    using ne sg len all_digits_valid[OF ne dg]
    by (simp add: py_int_def st tw fl Let_def)
qed

lemma content_length_decimal_value:
  assumes h: "headers r ''Content-Length'' = Some (decimal k)" and c: "content_length r = Inr n"
  shows "n = int k"
proof (cases "length (decimal k) \<le> int_max_str_digits")
  case True
  from content_length_decimal[OF h True] c show ?thesis by simp
next
  case False
  then have "isl (py_int (decimal k))"
    using py_int_digits_long[OF decimal_nonempty decimal_digits] by simp
  with h c show ?thesis by (simp add: content_length_def decimal_nonempty)
qed

lemma decimal_length: "0 < k \<Longrightarrow> n < 10 ^ k \<Longrightarrow> length (decimal n) \<le> k"
proof (induction n arbitrary: k rule: decimal.induct)
  case (1 n)
  show ?case
  proof (cases "n < 10")
    case True
    with 1(2) show ?thesis by (simp add: decimal.simps[of n])
  next
    case False
    with 1(2) 1(3) have k: "1 < k" by (cases "k = 1") auto
    then obtain j where j: "k = Suc j" "0 < j" by (cases k) auto
    from 1(3) j have "n div 10 < 10 ^ j"
      by (simp add: less_mult_imp_div_less mult.commute)
    from 1(1)[OF False j(2) this] False j show ?thesis by (simp add: decimal.simps[of n])
  qed
qed

lemma decimal_short: "n < 1000000 \<Longrightarrow> length (decimal n) \<le> int_max_str_digits"
  using decimal_length[of 6 n] by (simp add: int_max_str_digits_def)

subsection \<open>Size validation and failures\<close>

lemma example_path_dirname: "os_path_dirname example_path = ''/cache/models''"
  by code_simp

lemma example_writable: "writable example_path example_world"
  by (simp add: writable_def example_path_dirname) (simp add: example_world_def example_path_def)

lemma example_absent: "nodes example_world example_path = None"
  by (simp add: example_world_def example_path_def)

lemma short_body_length: "content_length short_body_response = Inr 1000000"
  by (simp add: content_length_def short_body_response_def) code_simp

lemma no_length_length: "content_length no_length_response = Inr 0"
  by (simp add: content_length_absent no_length_response_def)

lemma example_reachable: "\<not> list_ex (is_file example_world) (ancestors example_path)"
proof -
  have "ancestors example_path = [''/cache'', ''/cache/models'']" by code_simp
  then show ?thesis by (simp add: is_file_def example_world_def)
qed

lemma decimal_999999: "decimal 999999 = ''999999''"
  by (simp add: decimal.simps digit_char_def)

lemma below_minimum_length: "content_length below_minimum_response = Inr 999999"
  by (simp add: content_length_def below_minimum_response_def) code_simp

lemma padded_length: "content_length padded_response = Inr 999999"
  by (simp add: content_length_def padded_response_def) code_simp

lemma malformed_length: "isl (content_length malformed_response)"
  by (simp add: content_length_def malformed_response_def) code_simp

text \<open>
  C4, as the code has it. The size that the routine validates is the declared one: the
  \<^verbatim>\<open>Content-Length\<close> header as \<^verbatim>\<open>int\<close> reads it, which is 0 when the header is absent or
  empty and \<open>k\<close> when the header is the decimal numeral of \<open>k\<close>. For every source whose
  declared size is below 1,000,000 and whose target file can be opened for writing, the
  content-validation \<^verbatim>\<open>ValueError\<close> of line 152 is raised and leaves the \<^verbatim>\<open>try\<close> block, it is
  caught, the caller receives \<^verbatim>\<open>ValueError("Download incomplete.")\<close>, and no file is left at
  the target path; the rest of the file system is as before.
\<close>

theorem download_url_rejects_declared_size_below_minimum:
  assumes get: "rg url = Inr r" and wr: "writable p w"
    and len: "content_length r = Inr n" and small: "n < 1000000"
  shows "size_check r
           = Inl (ValueError [PyStr ''Content should be at least 1 MB, but is only'',
                              header_arg r, PyStr ''bytes''])
       \<and> fst (download_try rg url p w)
           = Some (ValueError [PyStr ''Content should be at least 1 MB, but is only'',
                               header_arg r, PyStr ''bytes''])
       \<and> fst (download_url rg url p w) = Inl (ValueError [PyStr ''Download incomplete.''])
       \<and> nodes (snd (download_url rg url p w)) = (nodes w)(p := None)
       \<and> \<not> os_path_exists p (snd (download_url rg url p w))
       \<and> (headers r ''Content-Length'' = None \<or> headers r ''Content-Length'' = Some []
            \<longrightarrow> n = 0)
       \<and> (\<forall>k. headers r ''Content-Length'' = Some (decimal k) \<longrightarrow> n = int k)"
proof -
  let ?e = "ValueError [PyStr ''Content should be at least 1 MB, but is only'',
                        header_arg r, PyStr ''bytes'']"
  have chk: "size_check r = Inl ?e" by (rule size_check_below[OF len small])
  have out: "fst (download_try rg url p w) = Some ?e"
    by (rule download_try_rejected[of rg url r p w ?e, OF get wr chk])
  note fin = download_url_fails_after_open[of rg url r p w ?e, OF get wr out]
  have ex: "\<not> os_path_exists p (snd (download_url rg url p w))"
    using fin(2) by (simp add: os_path_exists_def)
  have zero: "headers r ''Content-Length'' = None \<or> headers r ''Content-Length'' = Some []
            \<longrightarrow> n = 0"
  proof
    assume "headers r ''Content-Length'' = None \<or> headers r ''Content-Length'' = Some []"
    then have "content_length r = py_int ''0''" by (auto simp: content_length_def)
    also have "py_int ''0'' = Inr 0" by code_simp
    finally show "n = 0" using len by simp
  qed
  have dec: "\<forall>k. headers r ''Content-Length'' = Some (decimal k) \<longrightarrow> n = int k"
    using content_length_decimal_value[OF _ len] by blast
  from chk out fin ex zero dec show ?thesis by blast
qed

theorem download_url_rejects_declared_size_below_minimum_witness:
  "below_minimum_requests example_url = Inr below_minimum_response
   \<and> writable example_path example_world
   \<and> headers below_minimum_response ''Content-Length'' = Some (decimal 999999)
   \<and> content_length below_minimum_response = Inr 999999
   \<and> (999999::int) < 1000000
   \<and> fst (download_try below_minimum_requests example_url example_path example_world)
        = Some (ValueError [PyStr ''Content should be at least 1 MB, but is only'',
                            PyStr ''999999'', PyStr ''bytes''])
   \<and> fst (download_url below_minimum_requests example_url example_path example_world)
        = Inl (ValueError [PyStr ''Download incomplete.''])
   \<and> \<not> os_path_exists example_path
          (snd (download_url below_minimum_requests example_url example_path example_world))
   \<and> padded_requests example_url = Inr padded_response
   \<and> content_length padded_response = Inr 999999
   \<and> fst (download_url padded_requests example_url example_path example_world)
        = Inl (ValueError [PyStr ''Download incomplete.''])
   \<and> \<not> os_path_exists example_path
          (snd (download_url padded_requests example_url example_path example_world))
   \<and> no_length_requests example_url = Inr no_length_response
   \<and> content_length no_length_response = Inr 0
   \<and> fst (download_try no_length_requests example_url example_path example_world)
        = Some (ValueError [PyStr ''Content should be at least 1 MB, but is only'',
                            PyNone, PyStr ''bytes''])
   \<and> fst (download_url no_length_requests example_url example_path example_world)
        = Inl (ValueError [PyStr ''Download incomplete.''])
   \<and> nodes (snd (download_url no_length_requests example_url example_path example_world))
        = (nodes example_world)(example_path := None)
   \<and> \<not> os_path_exists example_path
          (snd (download_url no_length_requests example_url example_path example_world))"
proof -
  have g1: "below_minimum_requests example_url = Inr below_minimum_response"
    by (simp add: below_minimum_requests_def)
  have g2: "padded_requests example_url = Inr padded_response"
    by (simp add: padded_requests_def)
  have g3: "no_length_requests example_url = Inr no_length_response"
    by (simp add: no_length_requests_def)
  have s1: "(999999::int) < 1000000" and s3: "(0::int) < 1000000" by simp_all
  have d1: "headers below_minimum_response ''Content-Length'' = Some (decimal 999999)"
    by (simp add: below_minimum_response_def decimal_999999)
  have a1: "header_arg below_minimum_response = PyStr ''999999''"
    by (simp add: header_arg_def below_minimum_response_def)
  have a3: "header_arg no_length_response = PyNone"
    by (simp add: header_arg_def no_length_response_def)
  note T1 = download_url_rejects_declared_size_below_minimum
         [of below_minimum_requests example_url below_minimum_response example_path
             example_world 999999, OF g1 example_writable below_minimum_length s1]
  note T2 = download_url_rejects_declared_size_below_minimum
         [of padded_requests example_url padded_response example_path
             example_world 999999, OF g2 example_writable padded_length s1]
  note T3 = download_url_rejects_declared_size_below_minimum
         [of no_length_requests example_url no_length_response example_path
             example_world 0, OF g3 example_writable no_length_length s3]
  have c1: "fst (download_try below_minimum_requests example_url example_path example_world)
        = Some (ValueError [PyStr ''Content should be at least 1 MB, but is only'',
                            PyStr ''999999'', PyStr ''bytes''])"
    using T1[THEN conjunct2, THEN conjunct1] by (simp add: a1)
  have c3: "fst (download_try no_length_requests example_url example_path example_world)
        = Some (ValueError [PyStr ''Content should be at least 1 MB, but is only'',
                            PyNone, PyStr ''bytes''])"
    using T3[THEN conjunct2, THEN conjunct1] by (simp add: a3)
  note r1 = T1[THEN conjunct2, THEN conjunct2]
  note r2 = T2[THEN conjunct2, THEN conjunct2]
  note r3 = T3[THEN conjunct2, THEN conjunct2]
  from g1 example_writable d1 below_minimum_length s1 c1
    r1[THEN conjunct1] r1[THEN conjunct2, THEN conjunct2, THEN conjunct1]
    g2 padded_length r2[THEN conjunct1] r2[THEN conjunct2, THEN conjunct2, THEN conjunct1]
    g3 no_length_length c3 r3[THEN conjunct1] r3[THEN conjunct2, THEN conjunct1]
    r3[THEN conjunct2, THEN conjunct2, THEN conjunct1]
  show ?thesis by (intro conjI)
qed

text \<open>
  C4 as stated, for every source whose size is below the minimum, does not hold: a source of
  three bytes that declares a \<^verbatim>\<open>Content-Length\<close> of 1,000,000 passes the check, the routine
  returns normally and the three bytes stay at the target path.
\<close>

theorem download_url_accepts_short_body:
  "length (concat (body short_body_response)) < 1000 * 1000
   \<and> fst (download_url short_body_requests example_url example_path example_world) = Inr ()
   \<and> nodes (snd (download_url short_body_requests example_url example_path example_world)) example_path
        = Some (File [1, 2, 3])"
proof -
  have get: "short_body_requests example_url = Inr short_body_response"
    by (simp add: short_body_requests_def)
  have chk: "size_check short_body_response = Inr 1000000"
    using short_body_length by (simp add: size_check_def)
  have fin: "\<not> true_div_overflows 1000000 1000"
    by (simp add: true_div_overflows_def)
  have ok: "body_error short_body_response = None"
    by (simp add: short_body_response_def)
  from download_url_completes[of short_body_requests example_url short_body_response
         example_path example_world 1000000, OF get example_writable chk fin ok]
  show ?thesis by (simp add: short_body_response_def)
qed

text \<open>
  C5 at a failing input. When \<^verbatim>\<open>requests.get\<close> itself raises, the target file has not been
  opened; with no file at the target path, \<^verbatim>\<open>os.remove\<close> in the \<^verbatim>\<open>finally\<close> clause raises
  \<^verbatim>\<open>FileNotFoundError\<close>, and line 171 with its \<^verbatim>\<open>ValueError("Download incomplete.")\<close> is
  never reached.
\<close>

theorem download_url_connection_error_raises_FileNotFoundError:
  "failing_requests example_url = Inl (RequestException ''connection refused'')
   \<and> fst (download_url failing_requests example_url example_path example_world)
        = Inl (FileNotFoundError example_path)
   \<and> fst (download_url failing_requests example_url example_path example_world)
        \<noteq> Inl (ValueError [PyStr ''Download incomplete.''])"
proof -
  have get: "failing_requests example_url = Inl (RequestException ''connection refused'')"
    by (simp add: failing_requests_def)
  from download_url_get_raises(1)[of failing_requests example_url _ example_world example_path,
         OF get example_absent] example_reachable get
  show ?thesis by simp
qed

text \<open>
  C10. The validation of the minimum size reads the \<^verbatim>\<open>Content-Length\<close> header only: two
  responses with the same headers get the same verdict, whatever their bodies. When the
  header is absent, or is read as a number below 1,000,000 (in particular when it is the
  decimal numeral of such a number), or cannot be read as a number, the download is
  rejected: the routine raises and leaves no file at the target path, for every body and
  every state of the file system. When the header is read as a number of at least 1,000,000
  (in particular when it is the decimal numeral of such a number, of no more digits than
  \<^verbatim>\<open>int\<close> accepts) the check passes for every body, also a shorter one: if moreover the
  target can be opened, the transfer raises nothing and the declared size is within the
  range of a float, the routine returns normally and the file holds exactly the bytes
  received.
\<close>

theorem size_check_decided_by_content_length_header:
  assumes get: "rg url = Inr r"
  shows "(\<forall>r'. headers r' = headers r \<longrightarrow> size_check r' = size_check r)
       \<and> (headers r ''Content-Length'' = None \<or> (\<exists>n. content_length r = Inr n \<and> n < 1000000)
            \<longrightarrow> isl (size_check r)
              \<and> isl (fst (download_url rg url p w))
              \<and> \<not> is_file (snd (download_url rg url p w)) p)
       \<and> (\<forall>n. content_length r = Inr n \<and> 1000000 \<le> n
            \<longrightarrow> size_check r = Inr n
              \<and> (\<not> true_div_overflows n 1000 \<and> writable p w \<and> body_error r = None
                   \<longrightarrow> fst (download_url rg url p w) = Inr ()
                     \<and> nodes (snd (download_url rg url p w)) p = Some (File (concat (body r)))))
       \<and> (\<forall>k. headers r ''Content-Length'' = Some (decimal k) \<and> k < 1000000
            \<longrightarrow> size_check r
                  = Inl (ValueError [PyStr ''Content should be at least 1 MB, but is only'',
                                     PyStr (decimal k), PyStr ''bytes''])
              \<and> isl (fst (download_url rg url p w))
              \<and> \<not> is_file (snd (download_url rg url p w)) p)
       \<and> (\<forall>k. headers r ''Content-Length'' = Some (decimal k) \<and> 1000000 \<le> k
                \<and> length (decimal k) \<le> int_max_str_digits
            \<longrightarrow> size_check r = Inr (int k))
       \<and> (isl (content_length r)
            \<longrightarrow> isl (size_check r)
              \<and> isl (fst (download_url rg url p w))
              \<and> \<not> is_file (snd (download_url rg url p w)) p)"
proof -
  have rejected: "isl (fst (download_url rg url p w)) \<and> \<not> is_file (snd (download_url rg url p w)) p"
    if chk: "size_check r = Inl e" for e
  proof -
    from download_try_raises_when_rejected[of rg url r e p w, OF get chk]
    have raised: "isl (fst (download_url rg url p w))" by (simp add: download_url_raises_iff)
    then obtain e' where "fst (download_url rg url p w) = Inl e'"
      by (cases "fst (download_url rg url p w)") auto
    then have "\<not> is_file (snd (download_url rg url p w)) p" by (rule download_url_raises_no_file)
    with raised show ?thesis by simp
  qed
  have c1: "\<forall>r'. headers r' = headers r \<longrightarrow> size_check r' = size_check r"
    using size_check_headers by blast
  have c2: "headers r ''Content-Length'' = None \<or> (\<exists>n. content_length r = Inr n \<and> n < 1000000)
            \<longrightarrow> isl (size_check r)
              \<and> isl (fst (download_url rg url p w))
              \<and> \<not> is_file (snd (download_url rg url p w)) p"
  proof
    assume "headers r ''Content-Length'' = None \<or> (\<exists>n. content_length r = Inr n \<and> n < 1000000)"
    then obtain n where n: "content_length r = Inr n" "n < 1000000"
      using content_length_absent[of r] by auto
    from size_check_below[OF n] obtain e where chk: "size_check r = Inl e" by blast
    with rejected[OF chk] show "isl (size_check r)
              \<and> isl (fst (download_url rg url p w))
              \<and> \<not> is_file (snd (download_url rg url p w)) p" by simp
  qed
  have c3: "\<forall>n. content_length r = Inr n \<and> 1000000 \<le> n
            \<longrightarrow> size_check r = Inr n
              \<and> (\<not> true_div_overflows n 1000 \<and> writable p w \<and> body_error r = None
                   \<longrightarrow> fst (download_url rg url p w) = Inr ()
                     \<and> nodes (snd (download_url rg url p w)) p = Some (File (concat (body r))))"
  proof (intro allI impI conjI)
    fix n assume n: "content_length r = Inr n \<and> 1000000 \<le> n"
    then show chk: "size_check r = Inr n" by (simp add: size_check_at_least)
    assume rest: "\<not> true_div_overflows n 1000 \<and> writable p w \<and> body_error r = None"
    from download_url_completes[of rg url r p w n, OF get _ chk] rest
    show "fst (download_url rg url p w) = Inr ()" by simp
    from download_url_completes[of rg url r p w n, OF get _ chk] rest
    show "nodes (snd (download_url rg url p w)) p = Some (File (concat (body r)))" by simp
  qed
  have c4: "\<forall>k. headers r ''Content-Length'' = Some (decimal k) \<and> k < 1000000
            \<longrightarrow> size_check r
                  = Inl (ValueError [PyStr ''Content should be at least 1 MB, but is only'',
                                     PyStr (decimal k), PyStr ''bytes''])
              \<and> isl (fst (download_url rg url p w))
              \<and> \<not> is_file (snd (download_url rg url p w)) p"
  proof (intro allI impI)
    fix k assume k: "headers r ''Content-Length'' = Some (decimal k) \<and> k < 1000000"
    then have h: "headers r ''Content-Length'' = Some (decimal k)" and s: "k < 1000000"
      by simp_all
    have cl: "content_length r = Inr (int k)"
      by (rule content_length_decimal[OF h decimal_short[OF s]])
    have "int k < 1000000" using s by simp
    from size_check_below[OF cl this] h
    have chk: "size_check r
                  = Inl (ValueError [PyStr ''Content should be at least 1 MB, but is only'',
                                     PyStr (decimal k), PyStr ''bytes''])"
      by (simp add: header_arg_def)
    with rejected[OF chk] show "size_check r
                  = Inl (ValueError [PyStr ''Content should be at least 1 MB, but is only'',
                                     PyStr (decimal k), PyStr ''bytes''])
              \<and> isl (fst (download_url rg url p w))
              \<and> \<not> is_file (snd (download_url rg url p w)) p" by simp
  qed
  have c5: "\<forall>k. headers r ''Content-Length'' = Some (decimal k) \<and> 1000000 \<le> k
                \<and> length (decimal k) \<le> int_max_str_digits
            \<longrightarrow> size_check r = Inr (int k)"
  proof (intro allI impI)
    fix k assume k: "headers r ''Content-Length'' = Some (decimal k) \<and> 1000000 \<le> k
                \<and> length (decimal k) \<le> int_max_str_digits"
    then have cl: "content_length r = Inr (int k)"
      using content_length_decimal[of r k] by simp
    have "1000000 \<le> int k" using k by simp
    from size_check_at_least[OF cl this] show "size_check r = Inr (int k)" .
  qed
  have c6: "isl (content_length r)
            \<longrightarrow> isl (size_check r)
              \<and> isl (fst (download_url rg url p w))
              \<and> \<not> is_file (snd (download_url rg url p w)) p"
  proof
    assume "isl (content_length r)"
    then obtain e where "content_length r = Inl e" by (cases "content_length r") auto
    then have chk: "size_check r = Inl e" by (simp add: size_check_def)
    with rejected[OF chk] show "isl (size_check r)
              \<and> isl (fst (download_url rg url p w))
              \<and> \<not> is_file (snd (download_url rg url p w)) p" by simp
  qed
  from c1 c2 c3 c4 c5 c6 show ?thesis by (intro conjI)
qed

theorem size_check_decided_by_content_length_header_witness:
  "no_length_requests example_url = Inr no_length_response
   \<and> headers no_length_response ''Content-Length'' = None
   \<and> isl (size_check no_length_response)
   \<and> isl (fst (download_url no_length_requests example_url example_path example_world))
   \<and> \<not> is_file (snd (download_url no_length_requests example_url example_path example_world))
          example_path
   \<and> below_minimum_requests example_url = Inr below_minimum_response
   \<and> headers below_minimum_response ''Content-Length'' = Some (decimal 999999)
   \<and> size_check below_minimum_response
        = Inl (ValueError [PyStr ''Content should be at least 1 MB, but is only'',
                           PyStr ''999999'', PyStr ''bytes''])
   \<and> isl (fst (download_url below_minimum_requests example_url example_path example_world))
   \<and> malformed_requests example_url = Inr malformed_response
   \<and> isl (content_length malformed_response)
   \<and> isl (fst (download_url malformed_requests example_url example_path example_world))
   \<and> short_body_requests example_url = Inr short_body_response
   \<and> headers short_body_response ''Content-Length'' = Some (decimal 1000000)
   \<and> content_length short_body_response = Inr 1000000
   \<and> \<not> true_div_overflows 1000000 1000
   \<and> writable example_path example_world
   \<and> body_error short_body_response = None
   \<and> size_check short_body_response = Inr 1000000
   \<and> fst (download_url short_body_requests example_url example_path example_world) = Inr ()
   \<and> nodes (snd (download_url short_body_requests example_url example_path example_world))
         example_path = Some (File [1, 2, 3])"
proof -
  have g1: "no_length_requests example_url = Inr no_length_response"
    by (simp add: no_length_requests_def)
  have a1: "headers no_length_response ''Content-Length'' = None"
    by (simp add: no_length_response_def)
  have g2: "short_body_requests example_url = Inr short_body_response"
    by (simp add: short_body_requests_def)
  have g3: "below_minimum_requests example_url = Inr below_minimum_response"
    by (simp add: below_minimum_requests_def)
  have g4: "malformed_requests example_url = Inr malformed_response"
    by (simp add: malformed_requests_def)
  have d3: "headers below_minimum_response ''Content-Length'' = Some (decimal 999999)"
    by (simp add: below_minimum_response_def decimal_999999)
  have d2: "headers short_body_response ''Content-Length'' = Some (decimal 1000000)"
    by (simp add: short_body_response_def decimal.simps digit_char_def)
  have fin: "\<not> true_div_overflows 1000000 1000"
    by (simp add: true_div_overflows_def)
  have ok: "body_error short_body_response = None" "concat (body short_body_response) = [1, 2, 3]"
    by (simp_all add: short_body_response_def)
  have le: "(1000000::int) \<le> 1000000" by simp
  have lt: "(999999::nat) < 1000000" by simp
  note N = size_check_decided_by_content_length_header
         [of no_length_requests example_url no_length_response example_path example_world, OF g1]
  note S = size_check_decided_by_content_length_header
         [of short_body_requests example_url short_body_response example_path example_world, OF g2]
  note B = size_check_decided_by_content_length_header
         [of below_minimum_requests example_url below_minimum_response example_path example_world,
          OF g3]
  note M = size_check_decided_by_content_length_header
         [of malformed_requests example_url malformed_response example_path example_world, OF g4]
  note low = N[THEN conjunct2, THEN conjunct1, rule_format, OF disjI1, OF a1]
  note high = S[THEN conjunct2, THEN conjunct2, THEN conjunct1, rule_format, OF conjI,
                OF short_body_length le]
  note below = B[THEN conjunct2, THEN conjunct2, THEN conjunct2, THEN conjunct1, rule_format,
                 OF conjI, OF d3 lt]
  note bad = M[THEN conjunct2, THEN conjunct2, THEN conjunct2, THEN conjunct2, THEN conjunct2,
               rule_format, OF malformed_length]
  from high have chk: "size_check short_body_response = Inr 1000000" by (rule conjunct1)
  from high[THEN conjunct2, rule_format, OF conjI, OF fin conjI, OF example_writable ok(1)]
  have got: "fst (download_url short_body_requests example_url example_path example_world) = Inr ()"
    "nodes (snd (download_url short_body_requests example_url example_path example_world))
         example_path = Some (File [1, 2, 3])"
    by (simp_all add: ok(2))
  have b1: "size_check below_minimum_response
        = Inl (ValueError [PyStr ''Content should be at least 1 MB, but is only'',
                           PyStr ''999999'', PyStr ''bytes''])"
    using below[THEN conjunct1] by (simp add: decimal_999999)
  from g1 a1 low[THEN conjunct1] low[THEN conjunct2, THEN conjunct1]
    low[THEN conjunct2, THEN conjunct2]
    g3 d3 b1 below[THEN conjunct2, THEN conjunct1]
    g4 malformed_length bad[THEN conjunct2, THEN conjunct1]
    g2 d2 short_body_length fin example_writable ok(1) chk got
  show ?thesis by (intro conjI)
qed

section \<open>Properties of the constructor\<close>

lemma or_new_dict_keep:
  "arg = Some r \<Longrightarrow> dicts w r \<noteq> Map.empty \<Longrightarrow> or_new_dict arg w = (r, w)"
  by (simp add: or_new_dict_def)

lemma or_new_dict_fresh:
  "arg = None \<or> (\<exists>r. arg = Some r \<and> dicts w r = Map.empty) \<Longrightarrow>
     or_new_dict arg w
       = (next_ref w, w\<lparr>dicts := (dicts w)(next_ref w := Map.empty), next_ref := Suc (next_ref w)\<rparr>)"
  by (auto simp: or_new_dict_def)

lemma or_new_dict_cases:
  assumes e: "or_new_dict arg w = (r, w')"
  shows "(arg = Some r \<and> dicts w r \<noteq> Map.empty \<and> w' = w)
       \<or> (r = next_ref w \<and> dicts w' = (dicts w)(next_ref w := Map.empty)
            \<and> next_ref w' = Suc (next_ref w))"
proof (cases "\<exists>q. arg = Some q \<and> dicts w q \<noteq> Map.empty")
  case True
  then obtain q where q: "arg = Some q" "dicts w q \<noteq> Map.empty" by blast
  from or_new_dict_keep[OF q] e have "r = q" "w' = w" by simp_all
  with q show ?thesis by simp
next
  case False
  then have "arg = None \<or> (\<exists>q. arg = Some q \<and> dicts w q = Map.empty)"
    by (cases arg) auto
  from or_new_dict_fresh[OF this] e
  have "r = next_ref w"
    "w' = w\<lparr>dicts := (dicts w)(next_ref w := Map.empty), next_ref := Suc (next_ref w)\<rparr>"
    by simp_all
  then show ?thesis by simp
qed


lemma dict_update_dicts:
  "dicts (dict_update r u w) q = (if q = r then dicts w r ++ u else dicts w q)"
  by (simp add: dict_update_def)

lemma model_kwargs_no_clash:
  assumes o: "or_new_dict arg w = (mk, w1)"
    and nc: "\<forall>r. arg = Some r \<longrightarrow> dicts w r ''model_path'' = None"
  shows "dicts (dict_update mk [''n_ctx'' \<mapsto> x, ''verbose'' \<mapsto> y] w1) mk ''model_path'' = None"
proof -
  from or_new_dict_cases[OF o] have "dicts w1 mk ''model_path'' = None"
  proof
    assume "arg = Some mk \<and> dicts w mk \<noteq> Map.empty \<and> w1 = w"
    with nc show ?thesis by simp
  next
    assume "mk = next_ref w \<and> dicts w1 = (dicts w)(next_ref w := Map.empty)
              \<and> next_ref w1 = Suc (next_ref w)"
    then show ?thesis by simp
  qed
  then show ?thesis by (simp add: dict_update_dicts)
qed

lemma or_new_dict_frame [simp]:
  "nodes (snd (or_new_dict arg w)) = nodes w"
  "net_log (snd (or_new_dict arg w)) = net_log w"
  by (auto simp: or_new_dict_def Let_def split: option.splits)

lemma or_new_dict_eqD:
  "or_new_dict arg w = (r, w') \<Longrightarrow> nodes w' = nodes w \<and> net_log w' = net_log w"
  using or_new_dict_frame[of arg w] by simp

lemma dict_update_frame [simp]:
  "nodes (dict_update r u w) = nodes w"
  "net_log (dict_update r u w) = net_log w"
  "next_ref (dict_update r u w) = next_ref w"
  by (simp_all add: dict_update_def)

lemma os_makedirs_frame:
  "net_log (snd (os_makedirs d w)) = net_log w"
  "dicts (snd (os_makedirs d w)) = dicts w"
  "next_ref (snd (os_makedirs d w)) = next_ref w"
  by (simp_all add: os_makedirs_def)

lemma load_model_store:
  "dicts (snd (load_model env L a mk w)) = dicts w"
  "next_ref (snd (load_model env L a mk w)) = next_ref w"
proof -
  let ?p = "cache_path env (arg_model_url a)"
  let ?d = "os_path_dirname ?p"
  obtain r1 w1 where m: "os_makedirs ?d w = (r1, w1)" by (cases "os_makedirs ?d w")
  obtain r2 w2 where d: "download_url (requests_get env) (arg_model_url a) ?p w1 = (r2, w2)"
    by (cases "download_url (requests_get env) (arg_model_url a) ?p w1")
  have f1: "dicts w1 = dicts w" "next_ref w1 = next_ref w"
    using os_makedirs_frame[of ?d w] m by simp_all
  have f2: "dicts w2 = dicts w" "next_ref w2 = next_ref w"
    using download_url_frame(2,3)[of "requests_get env" "arg_model_url a" ?p w1] d f1 by simp_all
  show "dicts (snd (load_model env L a mk w)) = dicts w"
    using m d f1 f2
    by (auto simp: load_model_def Let_def split: option.splits sum.splits prod.splits)
  show "next_ref (snd (load_model env L a mk w)) = next_ref w"
    using m d f1 f2
    by (auto simp: load_model_def Let_def split: option.splits sum.splits prod.splits)
qed

lemma load_model_present:
  assumes "os_path_exists (resolved_path env a) w"
  shows "snd (load_model env L a mk w) = w"
  using assms
  by (auto simp: load_model_def resolved_path_def Let_def split: option.splits sum.splits)

lemma load_model_path:
  "fst (load_model env L a mk w) = Inr (p, m) \<Longrightarrow> p = resolved_path env a"
  by (auto simp: load_model_def resolved_path_def Let_def split: option.splits sum.splits prod.splits if_splits)

lemma load_model_missing:
  assumes "arg_model_path a = Some p" and "\<not> os_path_exists p w"
  shows "load_model env L a mk w = (Inl model_path_missing, w)"
  using assms by (simp add: load_model_def)


lemma init_frame_after_load:
  assumes L: "llama_cpp env = Some L"
  shows "nodes (snd (init env a w))
           = nodes (snd (load_model env L a (fst (or_new_dict (arg_model_kwargs a) w))
               (dict_update (fst (or_new_dict (arg_model_kwargs a) w))
                  [''n_ctx'' \<mapsto> PyInt (arg_context_window a), ''verbose'' \<mapsto> PyBool (arg_verbose a)]
                  (snd (or_new_dict (arg_model_kwargs a) w)))))"
    and "net_log (snd (init env a w))
           = net_log (snd (load_model env L a (fst (or_new_dict (arg_model_kwargs a) w))
               (dict_update (fst (or_new_dict (arg_model_kwargs a) w))
                  [''n_ctx'' \<mapsto> PyInt (arg_context_window a), ''verbose'' \<mapsto> PyBool (arg_verbose a)]
                  (snd (or_new_dict (arg_model_kwargs a) w)))))"
  using L by (auto simp: init_def Let_def dest: or_new_dict_eqD split: prod.splits sum.splits)

text \<open>
  C6. When an explicit \<open>model_path\<close> is given and nothing exists at that path, construction
  fails at once: with the configuration error of line 95 whenever the engine library can be
  imported (otherwise it has already failed with the \<^verbatim>\<open>ImportError\<close> of line 82), and in
  either case \<^verbatim>\<open>requests.get\<close> has not been called and the file system is as before, so
  that no download was attempted.
\<close>

theorem init_missing_model_path_fails_before_download:
  assumes path: "arg_model_path a = Some p" and absent: "\<not> os_path_exists p w"
  shows "fst (init env a w)
           = Inl (case llama_cpp env of None \<Rightarrow> import_failed | Some L \<Rightarrow> model_path_missing)
       \<and> net_log (snd (init env a w)) = net_log w
       \<and> nodes (snd (init env a w)) = nodes w"
proof (cases "llama_cpp env")
  case None
  then show ?thesis by (simp add: init_def)
next
  case (Some L)
  obtain mk w1 where o: "or_new_dict (arg_model_kwargs a) w = (mk, w1)"
    by (cases "or_new_dict (arg_model_kwargs a) w")
  let ?w2 = "dict_update mk [''n_ctx'' \<mapsto> PyInt (arg_context_window a),
                             ''verbose'' \<mapsto> PyBool (arg_verbose a)] w1"
  have n: "nodes ?w2 = nodes w" "net_log ?w2 = net_log w"
    using or_new_dict_frame[of "arg_model_kwargs a" w] o by simp_all
  then have "\<not> os_path_exists p ?w2" using absent by (simp add: os_path_exists_def)
  from load_model_missing[OF path this]
  have "init env a w = (Inl model_path_missing, ?w2)"
    using Some o by (simp add: init_def)
  with Some n show ?thesis by simp
qed

theorem init_missing_model_path_fails_before_download_witness:
  "arg_model_path (example_args\<lparr>arg_model_path := Some ''/models/absent.bin''\<rparr>)
     = Some ''/models/absent.bin''
   \<and> \<not> os_path_exists ''/models/absent.bin'' example_world
   \<and> fst (init example_env (example_args\<lparr>arg_model_path := Some ''/models/absent.bin''\<rparr>)
            example_world) = Inl model_path_missing
   \<and> net_log (snd (init example_env (example_args\<lparr>arg_model_path := Some ''/models/absent.bin''\<rparr>)
                    example_world)) = []
   \<and> nodes (snd (init example_env (example_args\<lparr>arg_model_path := Some ''/models/absent.bin''\<rparr>)
                  example_world)) = nodes example_world"
proof -
  have h1: "arg_model_path (example_args\<lparr>arg_model_path := Some ''/models/absent.bin''\<rparr>)
     = Some ''/models/absent.bin''" by simp
  have h2: "\<not> os_path_exists ''/models/absent.bin'' example_world"
    by (simp add: os_path_exists_def example_world_def)
  from init_missing_model_path_fails_before_download[OF h1 h2, of example_env] h1 h2
  show ?thesis by (simp add: example_env_def example_world_def)
qed

text \<open>
  C7. When the path at which the constructor looks for the artifact already exists, the
  download is skipped: \<^verbatim>\<open>requests.get\<close> is not called and the file system, the existing
  file included, is left as it is.
\<close>

theorem init_skips_download_when_artifact_present:
  assumes present: "os_path_exists (resolved_path env a) w"
  shows "net_log (snd (init env a w)) = net_log w \<and> nodes (snd (init env a w)) = nodes w"
proof (cases "llama_cpp env")
  case None
  then show ?thesis by (simp add: init_def)
next
  case (Some L)
  obtain mk w1 where o: "or_new_dict (arg_model_kwargs a) w = (mk, w1)"
    by (cases "or_new_dict (arg_model_kwargs a) w")
  let ?w2 = "dict_update mk [''n_ctx'' \<mapsto> PyInt (arg_context_window a),
                             ''verbose'' \<mapsto> PyBool (arg_verbose a)] w1"
  have n: "nodes ?w2 = nodes w" "net_log ?w2 = net_log w"
    using or_new_dict_frame[of "arg_model_kwargs a" w] o by simp_all
  then have "os_path_exists (resolved_path env a) ?w2"
    using present by (simp add: os_path_exists_def)
  from load_model_present[OF this, of L mk]
  have "snd (load_model env L a mk ?w2) = ?w2" .
  with init_frame_after_load[OF Some, of a w] o n show ?thesis by simp
qed

lemma example_cache_path: "cache_path example_env example_url = example_path"
  by (simp add: cache_path_def example_env_def) code_simp

theorem init_skips_download_when_artifact_present_witness:
  "os_path_exists (resolved_path example_env example_args) cached_world
   \<and> net_log (snd (init example_env example_args cached_world)) = []
   \<and> nodes (snd (init example_env example_args cached_world)) example_path = Some (File [1, 2, 3])
   \<and> nodes (snd (init example_env example_args cached_world)) = nodes cached_world"
proof -
  have r: "resolved_path example_env example_args = example_path"
    by (simp add: resolved_path_def example_args_def example_cache_path)
  have h: "os_path_exists (resolved_path example_env example_args) cached_world"
    by (simp add: r os_path_exists_def cached_world_def)
  from init_skips_download_when_artifact_present[OF h] h
  show ?thesis by (simp add: cached_world_def example_world_def)
qed

subsection \<open>The path in the cache\<close>

lemma basename_no_sep: "sep \<notin> set (os_path_basename p)"
  using set_takeWhileD[of sep "\<lambda>c. c \<noteq> sep" "rev p"] by (auto simp: os_path_basename_def)

lemma models_dir_shape:
  "join_step c ''models'' \<noteq> [] \<and> last (join_step c ''models'') = CHR ''s''"
  by (simp add: join_step_def sep_def)

lemma join_file:
  assumes X: "X \<noteq> []" "last X \<noteq> sep" and n: "sep \<notin> set name"
  shows "join_step X name = X @ [sep] @ name"
proof -
  have "take 1 name \<noteq> [sep]" using n by (cases name) auto
  with X show ?thesis by (simp add: join_step_def)
qed

lemma dirname_file:
  assumes X: "X \<noteq> []" "last X \<noteq> sep" and n: "sep \<notin> set name"
  shows "os_path_dirname (X @ [sep] @ name) = X"
proof -
  have "\<And>x. x \<in> set (rev name) \<Longrightarrow> x \<noteq> sep" using n by auto
  from dropWhile_append2[of "rev name" "\<lambda>c. c \<noteq> sep" "sep # rev X", OF this]
  have d: "dropWhile (\<lambda>c. c \<noteq> sep) (rev name @ sep # rev X) = sep # rev X" by simp
  have ne: "X @ [sep] \<noteq> replicate (Suc (length X)) sep"
  proof
    assume e: "X @ [sep] = replicate (Suc (length X)) sep"
    have "last X \<in> set (X @ [sep])" using X by simp
    then have "last X \<in> set (replicate (Suc (length X)) sep)" unfolding e .
    with X show False by simp
  qed
  have h: "hd (rev X) \<noteq> sep" using X by (simp add: hd_rev)
  have s: "dropWhile (\<lambda>c. c = sep) (rev X) = rev X"
    using X h by (cases "rev X") auto
  show ?thesis using d ne s by (simp add: os_path_dirname_def Let_def)
qed

lemma cache_path_shape:
  "cache_path env url = join_step (get_cache_dir env) ''models'' @ [sep] @ os_path_basename url"
  "os_path_dirname (cache_path env url) = join_step (get_cache_dir env) ''models''"
proof -
  let ?X = "join_step (get_cache_dir env) ''models''"
  have X: "?X \<noteq> []" "last ?X \<noteq> sep"
    using models_dir_shape[of "get_cache_dir env"] by (simp_all add: sep_def)
  show p: "cache_path env url = ?X @ [sep] @ os_path_basename url"
    using join_file[OF X basename_no_sep] by (simp add: cache_path_def os_path_join_def)
  show "os_path_dirname (cache_path env url) = ?X"
    unfolding p by (rule dirname_file[OF X basename_no_sep])
qed

lemma cache_path_plain:
  assumes "get_cache_dir env \<noteq> []" and "last (get_cache_dir env) \<noteq> sep"
  shows "cache_path env url = get_cache_dir env @ ''/models/'' @ os_path_basename url"
  using assms by (simp add: cache_path_shape(1) join_step_def sep_def)


lemma load_model_eqD:
  "load_model env L a mk w = (Inr (p, m), w') \<Longrightarrow> p = resolved_path env a"
  using load_model_path[of env L a mk w p m] by simp

lemma init_model_path:
  "fst (init env a w) = Inr m \<Longrightarrow> model_path m = resolved_path env a"
  by (auto simp: init_def Let_def dest: load_model_eqD split: option.splits prod.splits sum.splits)

lemma os_makedirs_creates:
  assumes "d \<noteq> []" and "\<not> list_ex (is_file w) (ancestors d @ [d])"
  shows "fst (os_makedirs d w) = Inr ()" and "nodes (snd (os_makedirs d w)) d = Some Dir"
  using assms by (simp_all add: os_makedirs_def)

lemma load_model_creates_directory:
  assumes none: "arg_model_path a = None"
    and absent: "\<not> os_path_exists (cache_path env (arg_model_url a)) w"
    and free: "\<not> list_ex (is_file w) (ancestors (os_path_dirname (cache_path env (arg_model_url a)))
                  @ [os_path_dirname (cache_path env (arg_model_url a))])"
  shows "nodes (snd (load_model env L a mk w)) (os_path_dirname (cache_path env (arg_model_url a)))
           = Some Dir"
proof -
  let ?p = "cache_path env (arg_model_url a)"
  let ?d = "os_path_dirname ?p"
  have d: "?d \<noteq> []" using models_dir_shape[of "get_cache_dir env"] by (simp add: cache_path_shape(2))
  have "length ?p = Suc (length ?d + length (os_path_basename (arg_model_url a)))"
    unfolding cache_path_shape(2) by (simp add: cache_path_shape(1))
  then have dp: "?d \<noteq> ?p" by auto
  obtain r1 w1 where m: "os_makedirs ?d w = (r1, w1)" by (cases "os_makedirs ?d w")
  with os_makedirs_creates[OF d free] have m1: "r1 = Inr ()" "nodes w1 ?d = Some Dir" by simp_all
  obtain r2 w2 where dl: "download_url (requests_get env) (arg_model_url a) ?p w1 = (r2, w2)"
    by (cases "download_url (requests_get env) (arg_model_url a) ?p w1")
  have "nodes w2 ?d = nodes w1 ?d"
    using download_url_frame(4)[OF dp, of "requests_get env" "arg_model_url a" w1] dl by simp
  with m1 have n2: "nodes w2 ?d = Some Dir" by simp
  show ?thesis
    using none absent m m1 dl n2
    by (auto simp: load_model_def Let_def split: sum.splits prod.splits)
qed

text \<open>
  C8. Without an explicit \<open>model_path\<close>, the path of the artifact is
  \<^verbatim>\<open>os.path.join(cache_dir, "models", os.path.basename(model_url))\<close>, which is the string
  \<^verbatim>\<open><cache-root>/models/<basename>\<close> whenever the cache root is not empty and does not end
  in a separator; its directory is \<^verbatim>\<open><cache-root>/models\<close>, and a constructed object has
  this path as its \<open>model_path\<close>. When the artifact is not yet there (and the library is
  imported and no regular file stands where a directory is needed), the directory exists
  after the call, whether the download then succeeds or not.
\<close>

theorem init_cache_path_and_directory:
  assumes none: "arg_model_path a = None"
  shows "resolved_path env a
           = os_path_join (get_cache_dir env) [''models'', os_path_basename (arg_model_url a)]
       \<and> (get_cache_dir env \<noteq> [] \<and> last (get_cache_dir env) \<noteq> sep \<longrightarrow>
            resolved_path env a
              = get_cache_dir env @ ''/models/'' @ os_path_basename (arg_model_url a))
       \<and> os_path_dirname (resolved_path env a) = os_path_join (get_cache_dir env) [''models'']
       \<and> (\<forall>m. fst (init env a w) = Inr m \<longrightarrow> model_path m = resolved_path env a)
       \<and> (llama_cpp env \<noteq> None \<and> \<not> os_path_exists (resolved_path env a) w
            \<and> \<not> list_ex (is_file w) (ancestors (os_path_dirname (resolved_path env a))
                                       @ [os_path_dirname (resolved_path env a)]) \<longrightarrow>
            nodes (snd (init env a w)) (os_path_dirname (resolved_path env a)) = Some Dir)"
proof -
  have r: "resolved_path env a = cache_path env (arg_model_url a)"
    using none by (simp add: resolved_path_def)
  have c1: "resolved_path env a
           = os_path_join (get_cache_dir env) [''models'', os_path_basename (arg_model_url a)]"
    by (simp add: r cache_path_def)
  have c2: "get_cache_dir env \<noteq> [] \<and> last (get_cache_dir env) \<noteq> sep \<longrightarrow>
            resolved_path env a
              = get_cache_dir env @ ''/models/'' @ os_path_basename (arg_model_url a)"
    using cache_path_plain[of env "arg_model_url a"] by (simp add: r)
  have c3: "os_path_dirname (resolved_path env a) = os_path_join (get_cache_dir env) [''models'']"
    by (simp add: r cache_path_shape(2) os_path_join_def)
  have c4: "\<forall>m. fst (init env a w) = Inr m \<longrightarrow> model_path m = resolved_path env a"
    using init_model_path[of env a w] by blast
  have c5: "llama_cpp env \<noteq> None \<and> \<not> os_path_exists (resolved_path env a) w
            \<and> \<not> list_ex (is_file w) (ancestors (os_path_dirname (resolved_path env a))
                                       @ [os_path_dirname (resolved_path env a)]) \<longrightarrow>
            nodes (snd (init env a w)) (os_path_dirname (resolved_path env a)) = Some Dir"
  proof
    assume h: "llama_cpp env \<noteq> None \<and> \<not> os_path_exists (resolved_path env a) w
            \<and> \<not> list_ex (is_file w) (ancestors (os_path_dirname (resolved_path env a))
                                       @ [os_path_dirname (resolved_path env a)])"
    then obtain L where L: "llama_cpp env = Some L" by auto
    obtain mk w1 where o: "or_new_dict (arg_model_kwargs a) w = (mk, w1)"
      by (cases "or_new_dict (arg_model_kwargs a) w")
    let ?w2 = "dict_update mk [''n_ctx'' \<mapsto> PyInt (arg_context_window a),
                               ''verbose'' \<mapsto> PyBool (arg_verbose a)] w1"
    have n: "nodes ?w2 = nodes w" using or_new_dict_eqD[OF o] by simp
    then have same: "os_path_exists q ?w2 = os_path_exists q w" "is_file ?w2 = is_file w" for q
      by (simp_all add: os_path_exists_def is_file_def fun_eq_iff)
    from h have "\<not> os_path_exists (cache_path env (arg_model_url a)) ?w2"
        "\<not> list_ex (is_file ?w2) (ancestors (os_path_dirname (cache_path env (arg_model_url a)))
                  @ [os_path_dirname (cache_path env (arg_model_url a))])"
      unfolding same by (simp_all add: r)
    from load_model_creates_directory[OF none this, of L mk]
    show "nodes (snd (init env a w)) (os_path_dirname (resolved_path env a)) = Some Dir"
      using init_frame_after_load(1)[OF L, of a w] o by (simp add: r)
  qed
  from c1 c2 c3 c4 c5 show ?thesis by blast
qed


lemma example_resolved: "resolved_path example_env example_args = example_path"
  by (simp add: resolved_path_def example_args_def example_cache_path)

lemma example_dirname: "os_path_dirname (resolved_path example_env example_args) = ''/cache/models''"
  by (simp add: example_resolved example_path_dirname)

lemma empty_world_free: "\<not> list_ex (is_file (w\<lparr>nodes := Map.empty\<rparr>)) qs"
  by (simp add: list_ex_iff is_file_def)

lemma ancestors_length: "q \<in> set (ancestors d @ [d]) \<Longrightarrow> length q \<le> length d"
  by (auto simp: ancestors_def)

lemma init_succeeds_after_download:
  assumes none: "arg_model_path a = None"
    and L: "llama_cpp env = Some L"
    and absent: "\<not> os_path_exists (resolved_path env a) w"
    and free: "\<not> list_ex (is_file w) (ancestors (os_path_dirname (resolved_path env a))
                                       @ [os_path_dirname (resolved_path env a)])"
    and get: "requests_get env (arg_model_url a) = Inr r"
    and chk: "size_check r = Inr n" and fin: "\<not> true_div_overflows n 1000"
    and ok: "body_error r = None"
    and nc: "\<forall>r. arg_model_kwargs a = Some r \<longrightarrow> dicts w r ''model_path'' = None"
    and eng: "\<And>kw fs. L (resolved_path env a) kw fs = Inr m"
  shows "\<exists>obj. fst (init env a w) = Inr obj \<and> model obj = m"
proof -
  let ?p = "cache_path env (arg_model_url a)"
  let ?d = "os_path_dirname ?p"
  have r: "resolved_path env a = ?p" using none by (simp add: resolved_path_def)
  obtain mk w1 where o: "or_new_dict (arg_model_kwargs a) w = (mk, w1)"
    by (cases "or_new_dict (arg_model_kwargs a) w")
  let ?w2 = "dict_update mk [''n_ctx'' \<mapsto> PyInt (arg_context_window a),
                             ''verbose'' \<mapsto> PyBool (arg_verbose a)] w1"
  have n: "nodes ?w2 = nodes w" using or_new_dict_eqD[OF o] by simp
  then have same: "os_path_exists q ?w2 = os_path_exists q w" "is_file ?w2 = is_file w" for q
    by (simp_all add: os_path_exists_def is_file_def fun_eq_iff)
  have a2: "\<not> os_path_exists ?p ?w2" using absent unfolding same r .
  have f2: "\<not> list_ex (is_file ?w2) (ancestors ?d @ [?d])" using free unfolding same r .
  have d: "?d \<noteq> []"
    using models_dir_shape[of "get_cache_dir env"] by (simp add: cache_path_shape(2))
  obtain r1 w3 where mkd: "os_makedirs ?d ?w2 = (r1, w3)" by (cases "os_makedirs ?d ?w2")
  with os_makedirs_creates[OF d f2] have m1: "r1 = Inr ()" "nodes w3 ?d = Some Dir" by simp_all
  have "length ?p = Suc (length ?d + length (os_path_basename (arg_model_url a)))"
    unfolding cache_path_shape(2) by (simp add: cache_path_shape(1))
  then have "?p \<notin> set (ancestors ?d @ [?d])"
    using ancestors_length[of ?p ?d] by auto
  then have "nodes w3 ?p = nodes ?w2 ?p"
    using mkd d f2 by (auto simp: os_makedirs_def split: if_splits)
  with a2 have "nodes w3 ?p = None" by (simp add: os_path_exists_def)
  with m1 have wr: "writable ?p w3" by (simp add: writable_def)
  obtain r2 w4 where dl: "download_url (requests_get env) (arg_model_url a) ?p w3 = (r2, w4)"
    by (cases "download_url (requests_get env) (arg_model_url a) ?p w3")
  from download_url_completes[of "requests_get env" "arg_model_url a" r ?p w3 n, OF get wr chk fin ok] dl
  have d2: "r2 = Inr ()" "os_path_exists ?p w4" by (simp_all add: os_path_exists_def)
  have "dicts w4 = dicts ?w2"
    using os_makedirs_frame(2)[of ?d ?w2] mkd
      download_url_frame(2)[of "requests_get env" "arg_model_url a" ?p w3] dl by simp
  moreover have nk: "dicts ?w2 mk ''model_path'' = None"
    by (rule model_kwargs_no_clash[OF o nc])
  ultimately have "new_Llama L ?p (dicts w4 mk) (nodes w4) = L ?p (dicts w4 mk) (nodes w4)"
    by (simp add: new_Llama_def keyword_clash_def)
  also have "\<dots> = Inr m" using eng[unfolded r] .
  finally have "new_Llama L ?p (dicts w4 mk) (nodes w4) = Inr m" .
  then have lm: "load_model env L a mk ?w2 = (Inr (?p, m), w4)"
    using none a2 mkd m1 dl d2 by (simp add: load_model_def Let_def)
  show ?thesis
    using L o lm by (simp add: init_def Let_def split: prod.splits)
qed


theorem init_cache_path_and_directory_witness:
  "arg_model_path example_args = None
   \<and> resolved_path example_env example_args = ''/cache/models/model.bin''
   \<and> os_path_dirname (resolved_path example_env example_args) = ''/cache/models''
   \<and> nodes empty_world ''/cache/models'' = None
   \<and> nodes (snd (init example_env example_args empty_world)) ''/cache/models'' = Some Dir
   \<and> (\<exists>obj. fst (init example_env example_args empty_world) = Inr obj
           \<and> model_path obj = ''/cache/models/model.bin'')"
proof -
  have none: "arg_model_path example_args = None" by (simp add: example_args_def)
  have L: "llama_cpp example_env = Some (\<lambda>p kw fs. Inr example_engine)"
    by (simp add: example_env_def)
  have absent: "\<not> os_path_exists (resolved_path example_env example_args) empty_world"
    by (simp add: os_path_exists_def empty_world_def)
  have free: "\<not> list_ex (is_file empty_world)
                 (ancestors (os_path_dirname (resolved_path example_env example_args))
                   @ [os_path_dirname (resolved_path example_env example_args)])"
    unfolding empty_world_def by (rule empty_world_free)
  have get: "requests_get example_env (arg_model_url example_args) = Inr short_body_response"
    by (simp add: example_env_def short_body_requests_def)
  have chk: "size_check short_body_response = Inr 1000000"
    using short_body_length by (simp add: size_check_def)
  have fin: "\<not> true_div_overflows 1000000 1000"
    by (simp add: true_div_overflows_def)
  have ok: "body_error short_body_response = None"
    by (simp add: short_body_response_def)
  have nc: "\<forall>r. arg_model_kwargs example_args = Some r \<longrightarrow>
                dicts empty_world r ''model_path'' = None"
    by (simp add: example_args_def)
  note T = init_cache_path_and_directory[OF none, of example_env empty_world]
  from init_succeeds_after_download[OF none L absent free get chk fin ok nc]
  obtain obj where obj: "fst (init example_env example_args empty_world) = Inr obj" by blast
  note T4 = T[THEN conjunct2, THEN conjunct2, THEN conjunct2, THEN conjunct1, rule_format]
  note T5 = T[THEN conjunct2, THEN conjunct2, THEN conjunct2, THEN conjunct2, rule_format]
  from T4[OF obj] have mp: "model_path obj = resolved_path example_env example_args" .
  have Lne: "llama_cpp example_env \<noteq> None" using L by simp
  from T5[OF conjI[OF Lne conjI[OF absent free]]]
  have dir: "nodes (snd (init example_env example_args empty_world))
               (os_path_dirname (resolved_path example_env example_args)) = Some Dir" .
  have e: "nodes empty_world ''/cache/models'' = None" by (simp add: empty_world_def)
  have p: "resolved_path example_env example_args = ''/cache/models/model.bin''"
    by (simp add: example_resolved example_path_def)
  from none p e obj mp dir show ?thesis
    using example_dirname by auto
qed

subsection \<open>The dictionaries of the caller\<close>

lemma load_model_eq_storeD:
  "load_model env L a mk w = (r, w') \<Longrightarrow> dicts w' = dicts w \<and> next_ref w' = next_ref w"
  using load_model_store[of env L a mk w] by simp

lemma init_succeeds_when_present:
  assumes L: "llama_cpp env = Some L"
    and present: "os_path_exists (resolved_path env a) w"
    and nc: "\<forall>r. arg_model_kwargs a = Some r \<longrightarrow> dicts w r ''model_path'' = None"
    and eng: "\<And>kw fs. L (resolved_path env a) kw fs = Inr m"
  shows "\<exists>obj. fst (init env a w) = Inr obj"
proof -
  obtain mk w1 where o: "or_new_dict (arg_model_kwargs a) w = (mk, w1)"
    by (cases "or_new_dict (arg_model_kwargs a) w")
  let ?w2 = "dict_update mk [''n_ctx'' \<mapsto> PyInt (arg_context_window a),
                             ''verbose'' \<mapsto> PyBool (arg_verbose a)] w1"
  have n: "nodes ?w2 = nodes w" using or_new_dict_eqD[OF o] by simp
  then have p2: "os_path_exists (resolved_path env a) ?w2"
    using present by (simp add: os_path_exists_def)
  have nk: "dicts ?w2 mk ''model_path'' = None"
    by (rule model_kwargs_no_clash[OF o nc])
  then have "new_Llama L (resolved_path env a) (dicts ?w2 mk) (nodes ?w2)
               = L (resolved_path env a) (dicts ?w2 mk) (nodes ?w2)"
    by (simp add: new_Llama_def keyword_clash_def)
  also have "\<dots> = Inr m" using eng .
  finally have "new_Llama L (resolved_path env a) (dicts ?w2 mk) (nodes ?w2) = Inr m" .
  then have "load_model env L a mk ?w2 = (Inr (resolved_path env a, m), ?w2)"
    using p2 by (auto simp: load_model_def resolved_path_def Let_def split: option.splits)
  then show ?thesis
    using L o by (simp add: init_def Let_def split: prod.splits)
qed

lemma init_after_load:
  assumes "llama_cpp env = Some L"
    and "or_new_dict (arg_model_kwargs a) w = (mk, w1)"
    and "load_model env L a mk
           (dict_update mk [''n_ctx'' \<mapsto> PyInt (arg_context_window a),
                            ''verbose'' \<mapsto> PyBool (arg_verbose a)] w1) = (r, w3)"
    and "or_new_dict (arg_generate_kwargs a) w3 = (gk, w4)"
  shows "r = Inl e \<Longrightarrow> fst (init env a w) = Inl e"
    and "r = Inr pm \<Longrightarrow>
           snd (init env a w)
             = dict_update gk [''temperature'' \<mapsto> PyFloat (arg_temperature a),
                               ''max_tokens'' \<mapsto> PyInt (arg_max_new_tokens a)] w4"
  using assms by (simp_all add: init_def Let_def split: prod.splits)

text \<open>The store after a successful construction, step by step.\<close>

lemma init_store:
  assumes ok: "fst (init env a w) = Inr obj"
  obtains mk w1 w3 gk w4 where
    "or_new_dict (arg_model_kwargs a) w = (mk, w1)"
    "dicts w3 = dicts (dict_update mk [''n_ctx'' \<mapsto> PyInt (arg_context_window a),
                                      ''verbose'' \<mapsto> PyBool (arg_verbose a)] w1)"
    "next_ref w3 = next_ref w1"
    "or_new_dict (arg_generate_kwargs a) w3 = (gk, w4)"
    "dicts (snd (init env a w))
       = dicts (dict_update gk [''temperature'' \<mapsto> PyFloat (arg_temperature a),
                                ''max_tokens'' \<mapsto> PyInt (arg_max_new_tokens a)] w4)"
proof -
  from ok obtain L where L: "llama_cpp env = Some L"
    by (cases "llama_cpp env") (auto simp: init_def)
  obtain mk w1 where o: "or_new_dict (arg_model_kwargs a) w = (mk, w1)"
    by (cases "or_new_dict (arg_model_kwargs a) w")
  let ?w2 = "dict_update mk [''n_ctx'' \<mapsto> PyInt (arg_context_window a),
                             ''verbose'' \<mapsto> PyBool (arg_verbose a)] w1"
  obtain r w3 where lm: "load_model env L a mk ?w2 = (r, w3)"
    by (cases "load_model env L a mk ?w2")
  from load_model_eq_storeD[OF lm] have s3: "dicts w3 = dicts ?w2" "next_ref w3 = next_ref w1"
    by simp_all
  obtain gk w4 where g: "or_new_dict (arg_generate_kwargs a) w3 = (gk, w4)"
    by (cases "or_new_dict (arg_generate_kwargs a) w3")
  have "dicts (snd (init env a w))
       = dicts (dict_update gk [''temperature'' \<mapsto> PyFloat (arg_temperature a),
                                ''max_tokens'' \<mapsto> PyInt (arg_max_new_tokens a)] w4)"
  proof (cases r)
    case (Inl e)
    from init_after_load(1)[OF L o lm g Inl] ok show ?thesis by simp
  next
    case (Inr pm)
    from init_after_load(2)[OF L o lm g Inr] show ?thesis by simp
  qed
  with o s3 g show thesis by (rule that)
qed

lemma init_model_kwargs_updated:
  assumes ok: "fst (init env a w) = Inr obj"
    and arg: "arg_model_kwargs a = Some r" and ne: "dicts w r \<noteq> Map.empty"
    and alloc: "r < next_ref w"
  shows "dicts (snd (init env a w)) r ''n_ctx'' = Some (PyInt (arg_context_window a))"
    and "dicts (snd (init env a w)) r ''verbose'' = Some (PyBool (arg_verbose a))"
proof -
  from init_store[OF ok] obtain mk w1 w3 gk w4 where
    o: "or_new_dict (arg_model_kwargs a) w = (mk, w1)"
    and s3: "dicts w3 = dicts (dict_update mk [''n_ctx'' \<mapsto> PyInt (arg_context_window a),
                                      ''verbose'' \<mapsto> PyBool (arg_verbose a)] w1)"
    and n3: "next_ref w3 = next_ref w1"
    and g: "or_new_dict (arg_generate_kwargs a) w3 = (gk, w4)"
    and fin: "dicts (snd (init env a w))
       = dicts (dict_update gk [''temperature'' \<mapsto> PyFloat (arg_temperature a),
                                ''max_tokens'' \<mapsto> PyInt (arg_max_new_tokens a)] w4)"
    by blast
  from or_new_dict_keep[OF arg ne] o have mk: "mk = r" "w1 = w" by simp_all
  have d3: "dicts w3 r ''n_ctx'' = Some (PyInt (arg_context_window a))"
    "dicts w3 r ''verbose'' = Some (PyBool (arg_verbose a))"
    by (simp_all add: s3 mk dict_update_dicts)
  from or_new_dict_cases[OF g]
  have d4: "dicts w4 r = dicts w3 r"
  proof
    assume "arg_generate_kwargs a = Some gk \<and> dicts w3 gk \<noteq> Map.empty \<and> w4 = w3"
    then show ?thesis by simp
  next
    assume f: "gk = next_ref w3 \<and> dicts w4 = (dicts w3)(next_ref w3 := Map.empty)
                \<and> next_ref w4 = Suc (next_ref w3)"
    have "r \<noteq> next_ref w3" using alloc n3 mk by simp
    with f show ?thesis by simp
  qed
  have d5: "dicts w4 r ''n_ctx'' = Some (PyInt (arg_context_window a))"
    "dicts w4 r ''verbose'' = Some (PyBool (arg_verbose a))"
    using d3 d4 by simp_all
  show "dicts (snd (init env a w)) r ''n_ctx'' = Some (PyInt (arg_context_window a))"
  proof (cases "r = gk")
    case True
    with d5 show ?thesis by (simp add: fin dict_update_dicts)
  next
    case False
    with d5 show ?thesis by (simp add: fin dict_update_dicts)
  qed
  show "dicts (snd (init env a w)) r ''verbose'' = Some (PyBool (arg_verbose a))"
  proof (cases "r = gk")
    case True
    with d5 show ?thesis by (simp add: fin dict_update_dicts)
  next
    case False
    with d5 show ?thesis by (simp add: fin dict_update_dicts)
  qed
qed

lemma init_generate_kwargs_updated:
  assumes ok: "fst (init env a w) = Inr obj"
    and arg: "arg_generate_kwargs a = Some r" and ne: "dicts w r \<noteq> Map.empty"
    and alloc: "r < next_ref w"
  shows "dicts (snd (init env a w)) r ''temperature'' = Some (PyFloat (arg_temperature a))"
    and "dicts (snd (init env a w)) r ''max_tokens'' = Some (PyInt (arg_max_new_tokens a))"
proof -
  from init_store[OF ok] obtain mk w1 w3 gk w4 where
    o: "or_new_dict (arg_model_kwargs a) w = (mk, w1)"
    and s3: "dicts w3 = dicts (dict_update mk [''n_ctx'' \<mapsto> PyInt (arg_context_window a),
                                      ''verbose'' \<mapsto> PyBool (arg_verbose a)] w1)"
    and n3: "next_ref w3 = next_ref w1"
    and g: "or_new_dict (arg_generate_kwargs a) w3 = (gk, w4)"
    and fin: "dicts (snd (init env a w))
       = dicts (dict_update gk [''temperature'' \<mapsto> PyFloat (arg_temperature a),
                                ''max_tokens'' \<mapsto> PyInt (arg_max_new_tokens a)] w4)"
    by blast
  from or_new_dict_cases[OF o]
  have d1: "dicts w1 r = dicts w r"
  proof
    assume "arg_model_kwargs a = Some mk \<and> dicts w mk \<noteq> Map.empty \<and> w1 = w"
    then show ?thesis by simp
  next
    assume "mk = next_ref w \<and> dicts w1 = (dicts w)(next_ref w := Map.empty)
                \<and> next_ref w1 = Suc (next_ref w)"
    with alloc show ?thesis by simp
  qed
  have "dicts w3 r \<noteq> Map.empty"
  proof (cases "r = mk")
    case True
    then have "dicts w3 r ''n_ctx'' = Some (PyInt (arg_context_window a))"
      by (simp add: s3 dict_update_dicts)
    then show ?thesis by (auto simp: fun_eq_iff)
  next
    case False
    then show ?thesis using ne d1 by (simp add: s3 dict_update_dicts)
  qed
  from or_new_dict_keep[OF arg this] g have gk: "gk = r" "w4 = w3" by simp_all
  show "dicts (snd (init env a w)) r ''temperature'' = Some (PyFloat (arg_temperature a))"
    by (simp add: fin gk dict_update_dicts)
  show "dicts (snd (init env a w)) r ''max_tokens'' = Some (PyInt (arg_max_new_tokens a))"
    by (simp add: fin gk dict_update_dicts)
qed

lemma init_empty_dict_untouched:
  assumes ok: "fst (init env a w) = Inr obj"
    and em: "dicts w r = Map.empty" and alloc: "r < next_ref w"
  shows "dicts (snd (init env a w)) r = Map.empty"
proof -
  from init_store[OF ok] obtain mk w1 w3 gk w4 where
    o: "or_new_dict (arg_model_kwargs a) w = (mk, w1)"
    and s3: "dicts w3 = dicts (dict_update mk [''n_ctx'' \<mapsto> PyInt (arg_context_window a),
                                      ''verbose'' \<mapsto> PyBool (arg_verbose a)] w1)"
    and n3: "next_ref w3 = next_ref w1"
    and g: "or_new_dict (arg_generate_kwargs a) w3 = (gk, w4)"
    and fin: "dicts (snd (init env a w))
       = dicts (dict_update gk [''temperature'' \<mapsto> PyFloat (arg_temperature a),
                                ''max_tokens'' \<mapsto> PyInt (arg_max_new_tokens a)] w4)"
    by blast
  from or_new_dict_cases[OF o]
  have d1: "mk \<noteq> r \<and> dicts w1 r = Map.empty \<and> r < next_ref w1"
  proof
    assume "arg_model_kwargs a = Some mk \<and> dicts w mk \<noteq> Map.empty \<and> w1 = w"
    with em alloc show ?thesis by auto
  next
    assume "mk = next_ref w \<and> dicts w1 = (dicts w)(next_ref w := Map.empty)
                \<and> next_ref w1 = Suc (next_ref w)"
    with em alloc show ?thesis by auto
  qed
  then have d3: "dicts w3 r = Map.empty" by (simp add: s3 dict_update_dicts)
  from or_new_dict_cases[OF g]
  have d4: "gk \<noteq> r \<and> dicts w4 r = Map.empty"
  proof
    assume "arg_generate_kwargs a = Some gk \<and> dicts w3 gk \<noteq> Map.empty \<and> w4 = w3"
    with d3 show ?thesis by auto
  next
    assume "gk = next_ref w3 \<and> dicts w4 = (dicts w3)(next_ref w3 := Map.empty)
                \<and> next_ref w4 = Suc (next_ref w3)"
    with d3 d1 n3 show ?thesis by auto
  qed
  then show ?thesis by (simp add: fin dict_update_dicts)
qed

text \<open>
  C9, as the code has it. After a construction that succeeds, a dictionary that the caller
  supplied as \<open>model_kwargs\<close> and that was not empty has been updated in place: its
  \<^verbatim>\<open>n_ctx\<close> is the context window and its \<^verbatim>\<open>verbose\<close> the verbose flag, whatever it held
  under those keys. Likewise a non-empty dictionary supplied as \<open>generate_kwargs\<close> holds the
  configured \<^verbatim>\<open>temperature\<close> and \<^verbatim>\<open>max_tokens\<close>. A dictionary that was empty is left empty:
  \<^verbatim>\<open>d or {}\<close> replaces it by a new one. The dictionaries of the caller are allocated objects
  (their addresses are below \<open>next_ref\<close>).
\<close>

theorem init_updates_nonempty_caller_dicts:
  assumes ok: "fst (init env a w) = Inr obj"
  shows "(\<forall>r. arg_model_kwargs a = Some r \<and> dicts w r \<noteq> Map.empty \<and> r < next_ref w \<longrightarrow>
            dicts (snd (init env a w)) r ''n_ctx'' = Some (PyInt (arg_context_window a))
          \<and> dicts (snd (init env a w)) r ''verbose'' = Some (PyBool (arg_verbose a)))
       \<and> (\<forall>r. arg_generate_kwargs a = Some r \<and> dicts w r \<noteq> Map.empty \<and> r < next_ref w \<longrightarrow>
            dicts (snd (init env a w)) r ''temperature'' = Some (PyFloat (arg_temperature a))
          \<and> dicts (snd (init env a w)) r ''max_tokens'' = Some (PyInt (arg_max_new_tokens a)))
       \<and> (\<forall>r. dicts w r = Map.empty \<and> r < next_ref w \<longrightarrow>
            dicts (snd (init env a w)) r = Map.empty)"
  using init_model_kwargs_updated[OF ok] init_generate_kwargs_updated[OF ok]
    init_empty_dict_untouched[OF ok]
  by blast

lemma caller_world_present:
  "os_path_exists (resolved_path example_env (example_args\<lparr>arg_generate_kwargs := g, arg_model_kwargs := k\<rparr>)) caller_world"
proof -
  have "resolved_path example_env (example_args\<lparr>arg_generate_kwargs := g, arg_model_kwargs := k\<rparr>)
          = example_path"
    by (simp add: resolved_path_def example_args_def example_cache_path)
  then show ?thesis
    by (simp add: os_path_exists_def caller_world_def cached_world_def)
qed

lemma caller_world_constructs:
  "\<exists>obj. fst (init example_env (example_args\<lparr>arg_generate_kwargs := g, arg_model_kwargs := k\<rparr>)
                caller_world) = Inr obj"
proof -
  have L: "llama_cpp example_env = Some (\<lambda>p kw fs. Inr example_engine)"
    by (simp add: example_env_def)
  have nc: "\<forall>r. arg_model_kwargs (example_args\<lparr>arg_generate_kwargs := g, arg_model_kwargs := k\<rparr>)
                = Some r \<longrightarrow> dicts caller_world r ''model_path'' = None"
    by (simp add: caller_world_def cached_world_def)
  from init_succeeds_when_present[OF L caller_world_present nc] show ?thesis by simp
qed

lemma caller_world_store:
  "dicts caller_world 0 ''n_ctx'' = Some (PyInt 512)"
  "dicts caller_world 1 ''temperature'' = Some (PyFloat 0)"
  "dicts caller_world 2 = Map.empty"
  "next_ref caller_world = 3"
  by (simp_all add: caller_world_def cached_world_def)

theorem init_updates_nonempty_caller_dicts_witness:
  "(\<exists>obj. fst (init example_env caller_args caller_world) = Inr obj)
   \<and> arg_model_kwargs caller_args = Some 0
   \<and> dicts caller_world 0 ''n_ctx'' = Some (PyInt 512)
   \<and> dicts (snd (init example_env caller_args caller_world)) 0 ''n_ctx'' = Some (PyInt 3900)
   \<and> dicts (snd (init example_env caller_args caller_world)) 0 ''verbose'' = Some (PyBool True)
   \<and> arg_generate_kwargs caller_args = Some 1
   \<and> dicts caller_world 1 ''temperature'' = Some (PyFloat 0)
   \<and> dicts (snd (init example_env caller_args caller_world)) 1 ''temperature''
        = Some (PyFloat 0x3FB999999999999A)
   \<and> dicts (snd (init example_env caller_args caller_world)) 1 ''max_tokens'' = Some (PyInt 256)
   \<and> dicts caller_world 2 = Map.empty
   \<and> dicts (snd (init example_env caller_args caller_world)) 2 = Map.empty"
proof -
  from caller_world_constructs[where g="Some 1" and k="Some 0"]
  obtain obj where ok: "fst (init example_env caller_args caller_world) = Inr obj"
    unfolding caller_args_def by blast
  note T = init_updates_nonempty_caller_dicts[OF ok]
  have a0: "arg_model_kwargs caller_args = Some 0" "arg_generate_kwargs caller_args = Some 1"
    by (simp_all add: caller_args_def)
  have v: "arg_context_window caller_args = 3900" "arg_verbose caller_args = True"
    "arg_temperature caller_args = 0x3FB999999999999A" "arg_max_new_tokens caller_args = 256"
    by (simp_all add: caller_args_def example_args_def)
  have ne0: "dicts caller_world 0 \<noteq> Map.empty" "dicts caller_world 1 \<noteq> Map.empty"
    using caller_world_store(1,2) by (auto simp: fun_eq_iff)
  have lt: "(0::nat) < next_ref caller_world" "(1::nat) < next_ref caller_world"
    "(2::nat) < next_ref caller_world"
    by (simp_all add: caller_world_store)
  from T[THEN conjunct1, rule_format, OF conjI[OF a0(1) conjI[OF ne0(1) lt(1)]]]
  have m: "dicts (snd (init example_env caller_args caller_world)) 0 ''n_ctx'' = Some (PyInt 3900)"
    "dicts (snd (init example_env caller_args caller_world)) 0 ''verbose'' = Some (PyBool True)"
    by (simp_all add: v)
  from T[THEN conjunct2, THEN conjunct1, rule_format, OF conjI[OF a0(2) conjI[OF ne0(2) lt(2)]]]
  have g: "dicts (snd (init example_env caller_args caller_world)) 1 ''temperature''
        = Some (PyFloat 0x3FB999999999999A)"
    "dicts (snd (init example_env caller_args caller_world)) 1 ''max_tokens'' = Some (PyInt 256)"
    by (simp_all add: v)
  from T[THEN conjunct2, THEN conjunct2, rule_format, OF conjI[OF caller_world_store(3) lt(3)]]
  have e: "dicts (snd (init example_env caller_args caller_world)) 2 = Map.empty" .
  from ok a0 caller_world_store m g e show ?thesis by blast
qed

text \<open>
  C9 as stated, for every construction call, does not hold: the caller hands over an empty
  dictionary for both options, construction succeeds, and that dictionary has none of the
  four keys afterwards.
\<close>

theorem init_leaves_empty_caller_dict:
  "arg_model_kwargs empty_dict_args = Some 2
   \<and> arg_generate_kwargs empty_dict_args = Some 2
   \<and> 2 < next_ref caller_world
   \<and> \<not> isl (fst (init example_env empty_dict_args caller_world))
   \<and> dicts (snd (init example_env empty_dict_args caller_world)) 2 ''n_ctx'' = None
   \<and> dicts (snd (init example_env empty_dict_args caller_world)) 2 ''verbose'' = None
   \<and> dicts (snd (init example_env empty_dict_args caller_world)) 2 ''temperature'' = None
   \<and> dicts (snd (init example_env empty_dict_args caller_world)) 2 ''max_tokens'' = None"
proof -
  from caller_world_constructs[where g="Some 2" and k="Some 2"]
  obtain obj where ok: "fst (init example_env empty_dict_args caller_world) = Inr obj"
    unfolding empty_dict_args_def by blast
  have lt: "(2::nat) < next_ref caller_world" by (simp add: caller_world_store)
  from init_empty_dict_untouched[OF ok caller_world_store(3) lt]
  have e: "dicts (snd (init example_env empty_dict_args caller_world)) 2 = Map.empty" .
  have a: "arg_model_kwargs empty_dict_args = Some 2" "arg_generate_kwargs empty_dict_args = Some 2"
    by (simp_all add: empty_dict_args_def)
  from ok a lt e show ?thesis by simp
qed

end
